theory Spec2Isabelle
  imports Complex_Main
begin

section \<open>Conventions\<close>

text \<open>
  The program \<^verbatim>\<open>noel.py\<close> computes with Python floats. They are modelled as the real
  numbers: \<^verbatim>\<open>+\<close>, \<^verbatim>\<open>*\<close>, \<^verbatim>\<open>/\<close>, \<^verbatim>\<open>math.sin\<close>, \<^verbatim>\<open>math.sqrt\<close> are the exact
  operations, and rounding is not modelled, with one exception: the hue update of
  \<^verbatim>\<open>HSVCycleEffect.step\<close> uses \<open>float_mod\<close> below, which writes out the rounded
  addition inside Python's float \<^verbatim>\<open>%\<close>, because there the rounding decides whether the
  hue stays below 1. Python integers that count things (step
  counters, palette indices, \<^verbatim>\<open>len\<close>) are natural numbers. Every exception the modelled
  code can raise is a value of the type \<open>error\<close>, and a function that can raise returns
  \<open>error + 'a\<close>. The objects of a colour sequence are taken to be distinct objects, as
  \<^verbatim>\<open>generateSpreadColours\<close> creates them, so a sequence of colours is a list of values
  and a mutation of one colour is an update of one list element.
\<close>

datatype error = ValueError | ZeroDivisionError | IndexError | UnboundLocalError

text \<open>Python's \<^verbatim>\<open>x % y\<close> on floats, for a divisor \<open>y > 0\<close> (the program only uses
  the literals 1 and 2): the result has the sign of the divisor.\<close>

definition fmod :: "real \<Rightarrow> real \<Rightarrow> real" where
  "fmod x y = x - y * of_int \<lfloor>x / y\<rfloor>"

text \<open>Python floats are IEEE doubles with 53 significant bits. \<open>round_double x\<close> is the
  double nearest to \<open>x\<close>, ties to the even significand, for \<open>x\<close> in the normal range
  (overflow and subnormal numbers are not modelled).\<close>

definition round_half_even :: "real \<Rightarrow> int" where
  "round_half_even y =
     (let f = \<lfloor>y\<rfloor> in
      if y - of_int f < 1 / 2 then f
      else if 1 / 2 < y - of_int f then f + 1
      else if even f then f else f + 1)"

definition round_double :: "real \<Rightarrow> real" where
  "round_double x =
     (if x = 0 then 0
      else (let u = 2 powr (of_int \<lfloor>log 2 \<bar>x\<bar>\<rfloor> - 52)
            in u * of_int (round_half_even (x / u))))"

text \<open>C's \<^verbatim>\<open>fmod(x, y)\<close>, which is exact: the remainder of the division truncated
  towards zero, with the sign of \<open>x\<close>.\<close>

definition c_fmod :: "real \<Rightarrow> real \<Rightarrow> real" where
  "c_fmod x y = x - y * of_int (if 0 \<le> x / y then \<lfloor>x / y\<rfloor> else \<lceil>x / y\<rceil>)"

text \<open>Python's \<^verbatim>\<open>x % y\<close> on floats as the interpreter computes it, for \<open>y \<noteq> 0\<close>:
  \<^verbatim>\<open>mod = fmod(x, y); if mod and ((y < 0) != (mod < 0)): mod += y\<close>. The addition is a
  float addition, so it is rounded: for a tiny negative \<open>x\<close> and \<open>y = 1\<close> the result is
  \<open>1.0\<close>. For \<open>x \<ge> 0\<close> and \<open>y = 1\<close> it is \<open>fmod x 1\<close>.\<close>

definition float_mod :: "real \<Rightarrow> real \<Rightarrow> real" where
  "float_mod x y =
     (let m = c_fmod x y in
      if m \<noteq> 0 \<and> ((y < 0) \<noteq> (m < 0)) then round_double (m + y) else m)"

text \<open>Python's \<^verbatim>\<open>int(x)\<close> on a float: truncation towards zero.\<close>

definition py_int :: "real \<Rightarrow> int" where
  "py_int x = (if 0 \<le> x then \<lfloor>x\<rfloor> else \<lceil>x\<rceil>)"

text \<open>\<^verbatim>\<open>math.asin\<close> raises ValueError outside \<open>[-1, 1]\<close>.\<close>

definition asin :: "real \<Rightarrow> error + real" where
  "asin x = (if - 1 \<le> x \<and> x \<le> 1 then Inr (arcsin x) else Inl ValueError)"

text \<open>A list comprehension \<^verbatim>\<open>[ math.asin(x) for x in xs ]\<close>: the first failure aborts.\<close>

fun asin_all :: "real list \<Rightarrow> error + real list" where
  "asin_all [] = Inr []"
| "asin_all (x # xs) =
     (case asin x of
        Inl er \<Rightarrow> Inl er
      | Inr p \<Rightarrow> (case asin_all xs of Inl er \<Rightarrow> Inl er | Inr ps \<Rightarrow> Inr (p # ps)))"

section \<open>Colours\<close>

record Colour =
  red :: int
  green :: int
  blue :: int
  alpha :: int

record HSVColour =
  H :: real
  S :: real
  V :: real

text \<open>\<^verbatim>\<open>HSVColour.getRGBAColour\<close>. In the \<^verbatim>\<open>else\<close> branch the source prints a diagnostic
  and binds none of \<^verbatim>\<open>R, G, B\<close>, so the \<^verbatim>\<open>return\<close> raises UnboundLocalError when it
  reads \<^verbatim>\<open>R\<close>. The constructor \<^verbatim>\<open>Colour\<close> is called without \<^verbatim>\<open>alpha\<close>, which
  defaults to 255.\<close>

definition getRGBAColour :: "HSVColour \<Rightarrow> error + Colour" where
  "getRGBAColour c =
     (let C = V c * S c;
          Hprime = H c * 6;
          X = C * (1 - \<bar>fmod Hprime 2 - 1\<bar>);
          rgb = (if Hprime < 1 then Some (C, X, 0)
                 else if Hprime < 2 then Some (X, C, 0)
                 else if Hprime < 3 then Some (0, C, X)
                 else if Hprime < 4 then Some (0, X, C)
                 else if Hprime < 5 then Some (X, 0, C)
                 else if Hprime < 6 then Some (C, 0, X)
                 else None);
          m = V c - C
      in case rgb of
           None \<Rightarrow> Inl UnboundLocalError
         | Some (R, G, B) \<Rightarrow>
             Inr \<lparr>red = py_int (255 * (R + m)),
                  green = py_int (255 * (G + m)),
                  blue = py_int (255 * (B + m)),
                  alpha = 255\<rparr>)"

text \<open>\<^verbatim>\<open>generateSpreadColours(k, distance=-1)\<close>; \<open>k\<close> is a count of devices, and
  \<^verbatim>\<open>range(k)\<close> is \<open>[0..<k]\<close>.\<close>

definition generateSpreadColours :: "nat \<Rightarrow> real \<Rightarrow> HSVColour list" where
  "generateSpreadColours k distance =
     (let h = 6 / 10; s = 99 / 100; v = 7 / 10;
          distance' = (if distance = - 1 then 2 / (1 + sqrt 5) else distance)
      in map (\<lambda>x. \<lparr>H = fmod (h + distance' * real x) 1, S = s, V = v\<rparr>) [0..<k])"

section \<open>Effects\<close>

subsection \<open>HSVCycleEffect\<close>

text \<open>The attributes \<^verbatim>\<open>Sinit\<close> and \<^verbatim>\<open>Vinit\<close> are created by the first step; the
  constructor leaves \<^verbatim>\<open>nsteps = 0\<close>, so they are never read before that, and the
  model starts them as empty lists.\<close>

record HSVCycleEffect =
  dH :: real
  dS :: real
  dV :: real
  nsteps :: nat
  minS :: real
  maxS :: real
  Srange :: real
  minV :: real
  maxV :: real
  Vrange :: real
  Sinit :: "real list"
  Vinit :: "real list"

text \<open>\<^verbatim>\<open>HSVCycleEffect.__init__(H, S, V, minS, maxS, minV, maxV)\<close>; the defaults of the
  source are \<open>H = 0.05\<close>, \<open>S = 0\<close>, \<open>V = 0\<close>, \<open>minS = 1/255\<close>, \<open>maxS = 1\<close>,
  \<open>minV = 1/255\<close>, \<open>maxV = 1\<close>.\<close>

definition HSVCycleEffect_init ::
  "real \<Rightarrow> real \<Rightarrow> real \<Rightarrow> real \<Rightarrow> real \<Rightarrow> real \<Rightarrow> real \<Rightarrow> HSVCycleEffect" where
  "HSVCycleEffect_init h s v mnS mxS mnV mxV =
     \<lparr>dH = h, dS = s, dV = v, nsteps = 0,
      minS = mnS, maxS = mxS, Srange = mxS - mnS,
      minV = mnV, maxV = mxV, Vrange = mxV - mnV,
      Sinit = [], Vinit = []\<rparr>"

text \<open>The loop \<^verbatim>\<open>for c, S, V in zip(colours, self.Sinit, self.Vinit)\<close>: it stops at the
  shortest of the three, and the colours beyond that stay as they are. The drift \<open>dH\<close>
  can be negative, so the left operand of \<^verbatim>\<open>% 1\<close> can be negative: the hue update is
  \<open>float_mod\<close>.\<close>

fun cycle_loop :: "HSVCycleEffect \<Rightarrow> HSVColour list \<Rightarrow> real list \<Rightarrow> real list \<Rightarrow> HSVColour list" where
  "cycle_loop e (c # cs) (ps # pss) (pv # pvs) =
     c\<lparr>H := float_mod (H c + dH e) 1,
       S := minS e + Srange e * (1 + sin (ps + dS e * real (nsteps e))) / 2,
       V := minV e + Vrange e * (1 + sin (pv + dV e * real (nsteps e))) / 2\<rparr>
     # cycle_loop e cs pss pvs"
| "cycle_loop e cs pss pvs = cs"

definition HSVCycle_step ::
  "HSVCycleEffect \<Rightarrow> HSVColour list \<Rightarrow> error + HSVCycleEffect \<times> HSVColour list" where
  "HSVCycle_step e colours =
     (case (if nsteps e = 0
            then (case asin_all (map S colours) of
                    Inl er \<Rightarrow> Inl er
                  | Inr si \<Rightarrow>
                      (case asin_all (map V colours) of
                         Inl er \<Rightarrow> Inl er
                       | Inr vi \<Rightarrow> Inr (e\<lparr>Sinit := si, Vinit := vi\<rparr>)))
            else Inr e) of
        Inl er \<Rightarrow> Inl er
      | Inr e1 \<Rightarrow>
          (let e2 = e1\<lparr>nsteps := nsteps e1 + 1\<rparr>
           in Inr (e2, cycle_loop e2 colours (Sinit e2) (Vinit e2))))"

subsection \<open>ChristmasEffect\<close>

text \<open>\<^verbatim>\<open>current\<close> and \<^verbatim>\<open>Vinit\<close> are created by the first step, as above. \<^verbatim>\<open>steps\<close>
  is the attribute that \<^verbatim>\<open>reset\<close> assigns; it does not exist before (\<open>None\<close>).\<close>

record ChristmasEffect =
  dV_c :: real
  minV_c :: real
  maxV_c :: real
  Vrange_c :: real
  hues :: "real list"
  nsteps_c :: nat
  switched_c :: bool
  current :: "nat list"
  Vinit_c :: "real list"
  steps :: "nat option"

text \<open>\<^verbatim>\<open>ChristmasEffect.__init__(V, minV, maxV, hues)\<close>; the defaults of the source are
  \<open>V = 0.1\<close>, \<open>minV = 1/255\<close>, \<open>maxV = 0.7\<close>, \<open>hues = [0, 51/360, 0.33]\<close>.\<close>

definition ChristmasEffect_init :: "real \<Rightarrow> real \<Rightarrow> real \<Rightarrow> real list \<Rightarrow> ChristmasEffect" where
  "ChristmasEffect_init v mnV mxV hs =
     \<lparr>dV_c = v, minV_c = mnV, maxV_c = mxV, Vrange_c = mxV - mnV, hues = hs,
      nsteps_c = 0, switched_c = False, current = [], Vinit_c = [], steps = None\<rparr>"

text \<open>First step: \<^verbatim>\<open>for i, c in enumerate(colours): c.H = self.hues[i % len(self.hues)]\<close>.
  With an empty palette the modulo raises ZeroDivisionError.\<close>

fun init_hues :: "real list \<Rightarrow> nat \<Rightarrow> HSVColour list \<Rightarrow> error + HSVColour list" where
  "init_hues hs i [] = Inr []"
| "init_hues hs i (c # cs) =
     (if hs = [] then Inl ZeroDivisionError
      else (case init_hues hs (Suc i) cs of
              Inl er \<Rightarrow> Inl er
            | Inr cs' \<Rightarrow> Inr (c\<lparr>H := hs ! (i mod length hs)\<rparr> # cs')))"

text \<open>At a switch:
  \<^verbatim>\<open>for i, c in enumerate(colours): c.H = self.hues[self.current[i] % len(self.hues)]\<close>.
  \<^verbatim>\<open>self.current[i]\<close> is evaluated first and raises IndexError when there are more
  colours than palette indices.\<close>

fun resolve_hues :: "real list \<Rightarrow> nat list \<Rightarrow> nat \<Rightarrow> HSVColour list \<Rightarrow> error + HSVColour list" where
  "resolve_hues hs cur i [] = Inr []"
| "resolve_hues hs cur i (c # cs) =
     (if length cur \<le> i then Inl IndexError
      else if hs = [] then Inl ZeroDivisionError
      else (case resolve_hues hs cur (Suc i) cs of
              Inl er \<Rightarrow> Inl er
            | Inr cs' \<Rightarrow> Inr (c\<lparr>H := hs ! (cur ! i mod length hs)\<rparr> # cs')))"

text \<open>The value \<^verbatim>\<open>newV\<close> that the loop body computes for a device with phase \<open>pv\<close>.\<close>

definition newV_c :: "ChristmasEffect \<Rightarrow> real \<Rightarrow> real" where
  "newV_c e pv = minV_c e + Vrange_c e * (1 + sin (pv + dV_c e * real (nsteps_c e))) / 2"

text \<open>The guards of the two branches of the loop body, for the device at position \<open>i\<close>.\<close>

definition latch_fires :: "ChristmasEffect \<Rightarrow> HSVColour list \<Rightarrow> nat \<Rightarrow> real \<Rightarrow> bool" where
  "latch_fires e cs i pv = (newV_c e pv > V (cs ! i) \<and> switched_c e = False)"

definition latch_releases :: "ChristmasEffect \<Rightarrow> HSVColour list \<Rightarrow> nat \<Rightarrow> real \<Rightarrow> bool" where
  "latch_releases e cs i pv = (newV_c e pv < V (cs ! i) \<and> switched_c e = True)"

text \<open>One iteration of \<^verbatim>\<open>for c, V in zip(colours, self.Vinit)\<close>, for the device at
  position \<open>i < length cs\<close>. In the switch branch the inner \<^verbatim>\<open>for i, c in enumerate(colours)\<close>
  rebinds \<^verbatim>\<open>c\<close>, so the final \<^verbatim>\<open>c.V = newV\<close> of that iteration writes to the last
  colour of the sequence.\<close>

definition christmas_body ::
  "nat \<Rightarrow> real \<Rightarrow> ChristmasEffect \<times> HSVColour list \<Rightarrow> error + ChristmasEffect \<times> HSVColour list" where
  "christmas_body i pv st =
     (case st of (e, cs) \<Rightarrow>
        (let newV = newV_c e pv in
         if latch_fires e cs i pv then
           (let e1 = e\<lparr>current := map (\<lambda>j. j + 1) (current e)\<rparr> in
            case resolve_hues (hues e1) (current e1) 0 cs of
              Inl er \<Rightarrow> Inl er
            | Inr cs1 \<Rightarrow>
                Inr (e1\<lparr>switched_c := True\<rparr>,
                     cs1[length cs1 - 1 := (cs1 ! (length cs1 - 1))\<lparr>V := newV\<rparr>]))
         else if latch_releases e cs i pv then
           Inr (e\<lparr>switched_c := False\<rparr>, cs[i := (cs ! i)\<lparr>V := newV\<rparr>])
         else Inr (e, cs[i := (cs ! i)\<lparr>V := newV\<rparr>])))"

text \<open>The loop over \<^verbatim>\<open>zip(colours, self.Vinit)\<close>, from position \<open>i\<close> on: it ends when
  either the phases or the colours are exhausted.\<close>

fun christmas_loop ::
  "nat \<Rightarrow> real list \<Rightarrow> ChristmasEffect \<times> HSVColour list \<Rightarrow> error + ChristmasEffect \<times> HSVColour list" where
  "christmas_loop i [] st = Inr st"
| "christmas_loop i (pv # pvs) st =
     (if length (snd st) \<le> i then Inr st
      else (case christmas_body i pv st of
              Inl er \<Rightarrow> Inl er
            | Inr st' \<Rightarrow> christmas_loop (Suc i) pvs st'))"

text \<open>The initialisation under \<^verbatim>\<open>if self.nsteps == 0\<close>.\<close>

definition christmas_first ::
  "ChristmasEffect \<Rightarrow> HSVColour list \<Rightarrow> error + ChristmasEffect \<times> HSVColour list" where
  "christmas_first e colours =
     (let e1 = e\<lparr>current := [0..<length colours]\<rparr> in
      case asin_all (map V colours) of
        Inl er \<Rightarrow> Inl er
      | Inr vi \<Rightarrow>
          (case init_hues (hues e1) 0 colours of
             Inl er \<Rightarrow> Inl er
           | Inr cs \<Rightarrow> Inr (e1\<lparr>Vinit_c := vi\<rparr>, cs)))"

definition christmas_prepare ::
  "ChristmasEffect \<Rightarrow> HSVColour list \<Rightarrow> error + ChristmasEffect \<times> HSVColour list" where
  "christmas_prepare e colours =
     (case (if nsteps_c e = 0 then christmas_first e colours else Inr (e, colours)) of
        Inl er \<Rightarrow> Inl er
      | Inr (e1, cs) \<Rightarrow> Inr (e1\<lparr>nsteps_c := nsteps_c e1 + 1\<rparr>, cs))"

definition Christmas_step ::
  "ChristmasEffect \<Rightarrow> HSVColour list \<Rightarrow> error + ChristmasEffect \<times> HSVColour list" where
  "Christmas_step e colours =
     (case christmas_prepare e colours of
        Inl er \<Rightarrow> Inl er
      | Inr (e2, cs) \<Rightarrow> christmas_loop 0 (Vinit_c e2) (e2, cs))"

text \<open>\<^verbatim>\<open>ChristmasEffect.reset\<close> assigns \<^verbatim>\<open>self.steps = 0\<close>.\<close>

definition Christmas_reset :: "ChristmasEffect \<Rightarrow> ChristmasEffect" where
  "Christmas_reset e = e\<lparr>steps := Some 0\<rparr>"

text \<open>The inner loop of the driver \<^verbatim>\<open>fun\<close> for one schedule entry,
  \<^verbatim>\<open>for s in range(nsteps): effect.step(colours)\<close>, without the device writes.\<close>

fun Christmas_run ::
  "nat \<Rightarrow> ChristmasEffect \<times> HSVColour list \<Rightarrow> error + ChristmasEffect \<times> HSVColour list" where
  "Christmas_run 0 st = Inr st"
| "Christmas_run (Suc n) st =
     (case Christmas_step (fst st) (snd st) of
        Inl er \<Rightarrow> Inl er
      | Inr st' \<Rightarrow> Christmas_run n st')"

text \<open>Observers used to state properties of a step: the number of loop iterations whose
  switch guard \<open>latch_fires\<close> holds, in a loop, in a step and in a run. They follow the
  loops above and read the same states.\<close>

fun loop_fires :: "nat \<Rightarrow> real list \<Rightarrow> ChristmasEffect \<times> HSVColour list \<Rightarrow> nat" where
  "loop_fires i [] st = 0"
| "loop_fires i (pv # pvs) st =
     (if length (snd st) \<le> i then 0
      else (if latch_fires (fst st) (snd st) i pv then 1 else 0) +
           (case christmas_body i pv st of
              Inl er \<Rightarrow> 0
            | Inr st' \<Rightarrow> loop_fires (Suc i) pvs st'))"

definition step_fires :: "ChristmasEffect \<Rightarrow> HSVColour list \<Rightarrow> nat" where
  "step_fires e colours =
     (case christmas_prepare e colours of
        Inl er \<Rightarrow> 0
      | Inr (e2, cs) \<Rightarrow> loop_fires 0 (Vinit_c e2) (e2, cs))"

fun run_fires :: "nat \<Rightarrow> ChristmasEffect \<times> HSVColour list \<Rightarrow> nat" where
  "run_fires 0 st = 0"
| "run_fires (Suc n) st =
     step_fires (fst st) (snd st) +
     (case Christmas_step (fst st) (snd st) of
        Inl er \<Rightarrow> 0
      | Inr st' \<Rightarrow> run_fires n st')"

subsection \<open>The random source\<close>

text \<open>\<^verbatim>\<open>random.random()\<close> reads a process-wide generator. The model threads the
  generator explicitly, as the sequence of the numbers it will return.\<close>

type_synonym rng = "nat \<Rightarrow> real"

definition random :: "rng \<Rightarrow> real \<times> rng" where
  "random g = (g 0, \<lambda>n. g (Suc n))"

subsection \<open>RandomEffect\<close>

fun Random_step :: "HSVColour list \<Rightarrow> rng \<Rightarrow> HSVColour list \<times> rng" where
  "Random_step [] g = ([], g)"
| "Random_step (c # cs) g =
     (case random g of (r, g1) \<Rightarrow>
        (case Random_step cs g1 of (cs', g2) \<Rightarrow> (c\<lparr>H := r\<rparr> # cs', g2)))"

subsection \<open>ChristmasEffectR\<close>

record ChristmasEffectR =
  dV_r :: real
  minV_r :: real
  maxV_r :: real
  Vrange_r :: real
  V_r :: real
  Vinit_r :: real
  nsteps_r :: nat
  switched_r :: bool

text \<open>\<^verbatim>\<open>ChristmasEffectR.__init__(V, minV, maxV)\<close>; defaults \<open>0.1\<close>, \<open>1/255\<close>, \<open>0.7\<close>.\<close>

definition ChristmasEffectR_init :: "real \<Rightarrow> real \<Rightarrow> real \<Rightarrow> ChristmasEffectR" where
  "ChristmasEffectR_init v mnV mxV =
     \<lparr>dV_r = v, minV_r = mnV, maxV_r = mxV, Vrange_r = mxV - mnV,
      V_r = mxV, Vinit_r = mxV, nsteps_r = 0, switched_r = False\<rparr>"

text \<open>\<^verbatim>\<open>setrandomhues\<close>: \<^verbatim>\<open>dist = 1 / len(colours)\<close> raises ZeroDivisionError on an
  empty sequence.\<close>

definition setrandomhues :: "HSVColour list \<Rightarrow> rng \<Rightarrow> error + HSVColour list \<times> rng" where
  "setrandomhues colours g =
     (if length colours = 0 then Inl ZeroDivisionError
      else (let dist = 1 / real (length colours) in
            case random g of (h, g1) \<Rightarrow>
              Inr (map (\<lambda>(i, c). c\<lparr>H := fmod (h + dist * real i) 1\<rparr>) (enumerate 0 colours), g1)))"

definition ChristmasR_step ::
  "ChristmasEffectR \<Rightarrow> HSVColour list \<Rightarrow> rng \<Rightarrow> error + ChristmasEffectR \<times> HSVColour list \<times> rng" where
  "ChristmasR_step e colours g =
     (case (if nsteps_r e = 0
            then setrandomhues (map (\<lambda>c. c\<lparr>V := Vinit_r e\<rparr>) colours) g
            else Inr (colours, g)) of
        Inl er \<Rightarrow> Inl er
      | Inr (cs1, g1) \<Rightarrow>
          (let e1 = e\<lparr>nsteps_r := nsteps_r e + 1\<rparr>;
               newV = minV_r e1 + Vrange_r e1 *
                        (1 + sin (Vinit_r e1 + dV_r e1 * real (nsteps_r e1))) / 2
           in case (if newV > V_r e1 \<and> switched_r e1 = False
                    then (case setrandomhues cs1 g1 of
                            Inl er \<Rightarrow> Inl er
                          | Inr (cs2, g2) \<Rightarrow> Inr (e1\<lparr>switched_r := True\<rparr>, cs2, g2))
                    else if newV < V_r e1 \<and> switched_r e1 = True
                    then Inr (e1\<lparr>switched_r := False\<rparr>, cs1, g1)
                    else Inr (e1, cs1, g1)) of
                Inl er \<Rightarrow> Inl er
              | Inr (e2, cs2, g2) \<Rightarrow>
                  (let e3 = e2\<lparr>V_r := newV\<rparr>
                   in Inr (e3, map (\<lambda>c. c\<lparr>V := V_r e3\<rparr>) cs2, g2))))"

subsection \<open>ChristmasEffectRA\<close>

text \<open>The constructor sets \<^verbatim>\<open>switched = False\<close>; the first step replaces it by a list
  of flags before any read, so the model keeps a list throughout. \<^verbatim>\<open>Vinit\<close> and
  \<^verbatim>\<open>stepsize\<close> are created by the first step.\<close>

record ChristmasEffectRA =
  dV_ra :: real
  minV_ra :: real
  maxV_ra :: real
  Vrange_ra :: real
  nsteps_ra :: nat
  switched_ra :: "bool list"
  stepamp :: real
  Vinit_ra :: "real list"
  stepsize :: "real list"

text \<open>\<^verbatim>\<open>ChristmasEffectRA.__init__(V, minV, maxV, stepamp)\<close>; defaults \<open>0.1\<close>, \<open>1/255\<close>,
  \<open>0.7\<close>, \<open>0.3\<close>.\<close>

definition ChristmasEffectRA_init :: "real \<Rightarrow> real \<Rightarrow> real \<Rightarrow> real \<Rightarrow> ChristmasEffectRA" where
  "ChristmasEffectRA_init v mnV mxV amp =
     \<lparr>dV_ra = v, minV_ra = mnV, maxV_ra = mxV, Vrange_ra = mxV - mnV,
      nsteps_ra = 0, switched_ra = [], stepamp = amp, Vinit_ra = [], stepsize = []\<rparr>"

definition genstepsize :: "ChristmasEffectRA \<Rightarrow> rng \<Rightarrow> real \<times> rng" where
  "genstepsize e g = (case random g of (r, g1) \<Rightarrow> (1 - stepamp e + r * (2 * stepamp e), g1))"

text \<open>The two comprehensions of the first step, one draw for each colour.\<close>

fun gen_Vinit :: "ChristmasEffectRA \<Rightarrow> HSVColour list \<Rightarrow> rng \<Rightarrow> real list \<times> rng" where
  "gen_Vinit e [] g = ([], g)"
| "gen_Vinit e (c # cs) g =
     (case random g of (r, g1) \<Rightarrow>
        (case gen_Vinit e cs g1 of (vs, g2) \<Rightarrow>
           ((minV_ra e + r * (maxV_ra e - minV_ra e)) # vs, g2)))"

fun gen_stepsize :: "ChristmasEffectRA \<Rightarrow> HSVColour list \<Rightarrow> rng \<Rightarrow> real list \<times> rng" where
  "gen_stepsize e [] g = ([], g)"
| "gen_stepsize e (c # cs) g =
     (case genstepsize e g of (x, g1) \<Rightarrow>
        (case gen_stepsize e cs g1 of (xs, g2) \<Rightarrow> (x # xs, g2)))"

text \<open>The loop \<^verbatim>\<open>for i, (c, V, s) in enumerate(zip(colours, self.Vinit, self.stepsize))\<close>.
  \<^verbatim>\<open>self.switched[i]\<close> is read only when the comparison before \<^verbatim>\<open>and\<close> holds, and
  raises IndexError when the list of flags is too short.\<close>

fun ra_loop ::
  "ChristmasEffectRA \<Rightarrow> nat \<Rightarrow> HSVColour list \<Rightarrow> real list \<Rightarrow> real list \<Rightarrow> bool list \<Rightarrow> rng
     \<Rightarrow> error + HSVColour list \<times> bool list \<times> rng" where
  "ra_loop e i (c # cs) (pv # pvs) (sz # szs) sw g =
     (let newV = minV_ra e + Vrange_ra e *
                   (1 + sin (pv + dV_ra e * real (nsteps_ra e) * sz)) / 2 in
      if (newV > V c \<or> newV < V c) \<and> length sw \<le> i then Inl IndexError
      else if newV > V c \<and> sw ! i = False then
        (case random g of (r, g1) \<Rightarrow>
           (case ra_loop e (Suc i) cs pvs szs (sw[i := True]) g1 of
              Inl er \<Rightarrow> Inl er
            | Inr (cs', sw', g2) \<Rightarrow> Inr (c\<lparr>H := r, V := newV\<rparr> # cs', sw', g2)))
      else if newV < V c \<and> sw ! i = True then
        (case ra_loop e (Suc i) cs pvs szs (sw[i := False]) g of
           Inl er \<Rightarrow> Inl er
         | Inr (cs', sw', g2) \<Rightarrow> Inr (c\<lparr>V := newV\<rparr> # cs', sw', g2))
      else
        (case ra_loop e (Suc i) cs pvs szs sw g of
           Inl er \<Rightarrow> Inl er
         | Inr (cs', sw', g2) \<Rightarrow> Inr (c\<lparr>V := newV\<rparr> # cs', sw', g2)))"
| "ra_loop e i cs pvs szs sw g = Inr (cs, sw, g)"

definition ChristmasRA_step ::
  "ChristmasEffectRA \<Rightarrow> HSVColour list \<Rightarrow> rng \<Rightarrow> error + ChristmasEffectRA \<times> HSVColour list \<times> rng" where
  "ChristmasRA_step e colours g =
     (case (if nsteps_ra e = 0
            then (case gen_Vinit e colours g of (vs, g1) \<Rightarrow>
                    (case gen_stepsize e colours g1 of (xs, g2) \<Rightarrow>
                       (e\<lparr>Vinit_ra := vs, switched_ra := map (\<lambda>c. False) colours,
                          stepsize := xs\<rparr>, g2)))
            else (e, g)) of
        (e1, g1) \<Rightarrow>
          (let e2 = e1\<lparr>nsteps_ra := nsteps_ra e1 + 1\<rparr> in
           case ra_loop e2 0 colours (Vinit_ra e2) (stepsize e2) (switched_ra e2) g1 of
             Inl er \<Rightarrow> Inl er
           | Inr (cs, sw, g2) \<Rightarrow> Inr (e2\<lparr>switched_ra := sw\<rparr>, cs, g2)))"

subsection \<open>SpreadResetEffect\<close>

text \<open>The loop \<^verbatim>\<open>for col1, col2 in zip(colours[0:-1], colours[1:])\<close>: each colour is
  set from its predecessor as the previous iteration left it.\<close>

fun spread_chain :: "real \<Rightarrow> HSVColour \<Rightarrow> HSVColour list \<Rightarrow> HSVColour list" where
  "spread_chain distance col1 [] = []"
| "spread_chain distance col1 (col2 # cs) =
     (let col2' = col2\<lparr>H := fmod (H col1 + distance) 1, S := S col1, V := V col1\<rparr>
      in col2' # spread_chain distance col2' cs)"

text \<open>\<^verbatim>\<open>SpreadResetEffect.step\<close> reads the module-level list \<^verbatim>\<open>devices\<close> that the
  script binds before the driver starts; its length is the parameter \<open>ndevices\<close>.
  \<^verbatim>\<open>1/len(colours)\<close> raises ZeroDivisionError on an empty sequence, and \<^verbatim>\<open>rcs[0]\<close>
  raises IndexError when there is no device.\<close>

definition SpreadReset_step :: "nat \<Rightarrow> HSVColour list \<Rightarrow> error + HSVColour list" where
  "SpreadReset_step ndevices colours =
     (if length colours = 0 then Inl ZeroDivisionError
      else (let distance = 1 / real (length colours);
                rcs = generateSpreadColours ndevices distance
            in if length rcs = 0 then Inl IndexError
               else (let col0 = (colours ! 0)\<lparr>H := H (rcs ! 0), S := S (rcs ! 0), V := V (rcs ! 0)\<rparr>
                     in Inr (col0 # spread_chain distance col0 (tl colours)))))"

subsection \<open>The effect classes together\<close>

text \<open>An effect object is one of the classes of the source; \<^verbatim>\<open>CombinedEffects\<close> holds
  its sub-effects. \<open>BaseE\<close> is the base class \<^verbatim>\<open>Effect\<close>, whose \<^verbatim>\<open>step\<close> does nothing.\<close>

datatype effect =
    BaseE
  | HSVCycleE HSVCycleEffect
  | CombinedE "effect list"
  | RandomE
  | ChristmasE ChristmasEffect
  | ChristmasRE ChristmasEffectR
  | ChristmasRAE ChristmasEffectRA
  | SpreadResetE

text \<open>Dynamic dispatch of \<^verbatim>\<open>effect.step(colours)\<close>. \<open>steps_all\<close> is the loop
  \<^verbatim>\<open>for effect in self.effects: effect.step(colours)\<close> of \<^verbatim>\<open>CombinedEffects\<close>.\<close>

fun step :: "nat \<Rightarrow> effect \<Rightarrow> HSVColour list \<Rightarrow> rng \<Rightarrow> error + effect \<times> HSVColour list \<times> rng"
  and steps_all :: "nat \<Rightarrow> effect list \<Rightarrow> HSVColour list \<Rightarrow> rng \<Rightarrow> error + effect list \<times> HSVColour list \<times> rng" where
  "step nd BaseE cs g = Inr (BaseE, cs, g)"
| "step nd (HSVCycleE e) cs g =
     (case HSVCycle_step e cs of
        Inl er \<Rightarrow> Inl er
      | Inr (e', cs') \<Rightarrow> Inr (HSVCycleE e', cs', g))"
| "step nd (CombinedE es) cs g =
     (case steps_all nd es cs g of
        Inl er \<Rightarrow> Inl er
      | Inr (es', cs', g') \<Rightarrow> Inr (CombinedE es', cs', g'))"
| "step nd RandomE cs g = (case Random_step cs g of (cs', g') \<Rightarrow> Inr (RandomE, cs', g'))"
| "step nd (ChristmasE e) cs g =
     (case Christmas_step e cs of
        Inl er \<Rightarrow> Inl er
      | Inr (e', cs') \<Rightarrow> Inr (ChristmasE e', cs', g))"
| "step nd (ChristmasRE e) cs g =
     (case ChristmasR_step e cs g of
        Inl er \<Rightarrow> Inl er
      | Inr (e', cs', g') \<Rightarrow> Inr (ChristmasRE e', cs', g'))"
| "step nd (ChristmasRAE e) cs g =
     (case ChristmasRA_step e cs g of
        Inl er \<Rightarrow> Inl er
      | Inr (e', cs', g') \<Rightarrow> Inr (ChristmasRAE e', cs', g'))"
| "step nd SpreadResetE cs g =
     (case SpreadReset_step nd cs of
        Inl er \<Rightarrow> Inl er
      | Inr cs' \<Rightarrow> Inr (SpreadResetE, cs', g))"
| "steps_all nd [] cs g = Inr ([], cs, g)"
| "steps_all nd (e # es) cs g =
     (case step nd e cs g of
        Inl er \<Rightarrow> Inl er
      | Inr (e', cs', g') \<Rightarrow>
          (case steps_all nd es cs' g' of
             Inl er \<Rightarrow> Inl er
           | Inr (es', cs'', g'') \<Rightarrow> Inr (e' # es', cs'', g'')))"

section \<open>Colour conversion and the hue spread\<close>

text \<open>C5, as the code has it. The claim says \<open>round\<close> and every \<open>H\<close>; the code truncates
  with \<^verbatim>\<open>int\<close> and raises for \<open>H \<ge> 1\<close>. First the two inputs where the claim as stated
  fails: at \<open>V = 0.98\<close> the channels are 249 while \<open>255 * V = 249.9\<close> rounds to 250, and
  at \<open>H = 1\<close> no colour is returned.\<close>

theorem getRGBAColour_grey_not_round:
  "getRGBAColour \<lparr>H = 0, S = 0, V = 49 / 50\<rparr>
     = Inr \<lparr>red = 249, green = 249, blue = 249, alpha = 255\<rparr>
   \<and> round (255 * (49 / 50 :: real)) = 250
   \<and> getRGBAColour \<lparr>H = 1, S = 0, V = 49 / 50\<rparr> = Inl UnboundLocalError"
  by (simp add: getRGBAColour_def py_int_def Let_def fmod_def round_def)

text \<open>C5 (amended): for every \<open>V\<close> in \<open>[0, 1]\<close> and every \<open>H < 1\<close>, converting
  \<open>HSVColour(H, 0, V)\<close> yields \<open>R = G = B = floor(255 * V)\<close> with alpha 255, whatever
  \<open>H\<close> is.\<close>

theorem getRGBAColour_grey:
  assumes "H c < 1" and "S c = 0" and "0 \<le> V c" and "V c \<le> 1"
  shows "getRGBAColour c
           = Inr \<lparr>red = \<lfloor>255 * V c\<rfloor>, green = \<lfloor>255 * V c\<rfloor>, blue = \<lfloor>255 * V c\<rfloor>, alpha = 255\<rparr>"
  using assms by (simp add: getRGBAColour_def py_int_def Let_def)

theorem getRGBAColour_grey_witness:
  "getRGBAColour \<lparr>H = 1 / 2, S = 0, V = 49 / 50\<rparr>
     = Inr \<lparr>red = 249, green = 249, blue = 249, alpha = 255\<rparr>"
  using getRGBAColour_grey [of "\<lparr>H = 1 / 2, S = 0, V = 49 / 50\<rparr>"] by simp

text \<open>C6, at an input where the claim as stated fails: a negative hue is not rejected,
  the first sector branch is taken and a colour is returned.\<close>

theorem getRGBAColour_negative_hue:
  "getRGBAColour \<lparr>H = - 1 / 2, S = 1, V = 1\<rparr>
     = Inr \<lparr>red = 255, green = 255, blue = 0, alpha = 255\<rparr>"
  by (simp add: getRGBAColour_def py_int_def Let_def fmod_def)

text \<open>C6 (amended): for every HSVColour with \<open>H \<ge> 1\<close> (so \<open>H * 6 \<ge> 6\<close>), getRGBAColour
  fails and produces no channel values; the failure is the UnboundLocalError of the
  unassigned \<open>R\<close> (there is no InvalidColorParameters error in the code). For every
  \<open>H < 1\<close>, negative hues included, it returns a colour.\<close>

theorem getRGBAColour_hue_domain:
  "(1 \<le> H c \<longrightarrow> getRGBAColour c = Inl UnboundLocalError) \<and>
   (H c < 1 \<longrightarrow> (\<exists>col. getRGBAColour c = Inr col))"
  by (simp add: getRGBAColour_def Let_def)

theorem getRGBAColour_hue_domain_witness:
  "getRGBAColour \<lparr>H = 1, S = 1, V = 1\<rparr> = Inl UnboundLocalError \<and>
   (\<exists>col. getRGBAColour \<lparr>H = - 1 / 2, S = 1, V = 1\<rparr> = Inr col)"
  using getRGBAColour_hue_domain [of "\<lparr>H = 1, S = 1, V = 1\<rparr>"]
        getRGBAColour_hue_domain [of "\<lparr>H = - 1 / 2, S = 1, V = 1\<rparr>"]
  by simp

text \<open>C2: generateSpreadColours(k, distance) returns exactly \<open>k\<close> colours, each with
  \<open>S = 0.99\<close> and \<open>V = 0.7\<close>, the \<open>i\<close>-th hue being \<open>(0.6 + distance * i) mod 1\<close>; with the
  sentinel \<open>- 1\<close> the step is \<open>2 / (1 + sqrt 5)\<close>; and \<open>k = 5\<close>, \<open>distance = 0.2\<close> gives the
  hues \<open>0.6, 0.8, 0.0, 0.2, 0.4\<close>.\<close>

theorem generateSpreadColours_spec:
  "length (generateSpreadColours k d) = k \<and>
   (\<forall>i<k. S (generateSpreadColours k d ! i) = 99 / 100 \<and>
          V (generateSpreadColours k d ! i) = 7 / 10 \<and>
          (d \<noteq> - 1 \<longrightarrow> H (generateSpreadColours k d ! i) = fmod (6 / 10 + d * real i) 1) \<and>
          (d = - 1 \<longrightarrow>
             H (generateSpreadColours k d ! i) = fmod (6 / 10 + 2 / (1 + sqrt 5) * real i) 1)) \<and>
   map H (generateSpreadColours 5 (2 / 10)) = [6 / 10, 8 / 10, 0, 2 / 10, 4 / 10]"
proof -
  have "map H (generateSpreadColours 5 (2 / 10)) = [6 / 10, 8 / 10, 0, 2 / 10, 4 / 10]"
    by (simp add: generateSpreadColours_def Let_def fmod_def upt_rec)
  then show ?thesis
    by (simp add: generateSpreadColours_def Let_def)
qed

theorem generateSpreadColours_spec_witness:
  "length (generateSpreadColours 5 (2 / 10)) = 5 \<and>
   S (generateSpreadColours 5 (2 / 10) ! 3) = 99 / 100 \<and>
   V (generateSpreadColours 5 (2 / 10) ! 3) = 7 / 10 \<and>
   H (generateSpreadColours 5 (2 / 10) ! 3) = fmod (6 / 10 + 2 / 10 * real (3::nat)) 1 \<and>
   H (generateSpreadColours 2 (- 1) ! 1) = fmod (6 / 10 + 2 / (1 + sqrt 5) * real (1::nat)) 1"
  using generateSpreadColours_spec [of 5 "2 / 10"] generateSpreadColours_spec [of 2 "- 1"]
  by simp

section \<open>Facts about the arithmetic\<close>

lemma fmod_1_range: "0 \<le> fmod x 1 \<and> fmod x 1 < 1"
  unfolding fmod_def by simp linarith

lemma fmod_1_id: "0 \<le> x \<Longrightarrow> x < 1 \<Longrightarrow> fmod x 1 = x"
  unfolding fmod_def by (simp add: floor_eq_iff)

lemma float_mod_nonneg: "0 \<le> x \<Longrightarrow> float_mod x 1 = fmod x 1"
proof -
  assume "0 \<le> x"
  then have "c_fmod x 1 = x - of_int \<lfloor>x\<rfloor>" by (simp add: c_fmod_def)
  moreover have "\<not> x < of_int \<lfloor>x\<rfloor>" by (simp add: not_less)
  ultimately show ?thesis by (simp add: float_mod_def fmod_def Let_def)
qed

lemma round_double_near_one:
  "round_double (1152921504606846975 / 1152921504606846976) = 1"
proof -
  define x :: real where "x = 1152921504606846975 / 1152921504606846976"
  have xr: "1 / 2 \<le> x" "x < 1" "x \<noteq> 0" "\<bar>x\<bar> = x" "0 < x"
    by (simp_all add: x_def)
  have "(2::real) powr (- 1) = 1 / 2" by (simp add: powr_minus_divide)
  then have fl: "\<lfloor>log 2 \<bar>x\<bar>\<rfloor> = - 1"
    using xr by (simp add: floor_log_eq_powr_iff)
  have u: "(2::real) powr (of_int (- 1) - 52) = 1 / 9007199254740992"
    by (simp add: powr_neg_numeral)
  have q: "x / (1 / 9007199254740992) = 1152921504606846975 / 128"
    by (simp add: x_def)
  have f: "\<lfloor>1152921504606846975 / 128 :: real\<rfloor> = 9007199254740991"
    by (simp add: floor_eq_iff)
  have r: "round_half_even (1152921504606846975 / 128) = 9007199254740992"
    unfolding round_half_even_def Let_def f by simp
  have "round_double x = 1"
    unfolding round_double_def Let_def fl u q r using xr by simp
  then show ?thesis by (simp only: x_def)
qed

lemma c_fmod_tiny_negative:
  "c_fmod (- (1 / 1152921504606846976)) 1 = - (1 / 1152921504606846976)"
  by (simp add: c_fmod_def ceiling_eq_iff)

lemma float_mod_tiny_negative: "float_mod (- (1 / 2 ^ 60)) 1 = 1"
  by (simp add: float_mod_def Let_def c_fmod_tiny_negative round_double_near_one)

lemma asin_all_ok: "\<forall>x\<in>set xs. - 1 \<le> x \<and> x \<le> 1 \<Longrightarrow> asin_all xs = Inr (map arcsin xs)"
  by (induction xs) (simp_all add: asin_def)

lemma asin_all_error: "asin_all xs = Inl er \<Longrightarrow> er = ValueError"
  by (induction xs) (auto simp: asin_def split: if_splits sum.splits)

lemma asin_all_fails: "x \<in> set xs \<Longrightarrow> 1 < x \<Longrightarrow> asin_all xs = Inl ValueError"
proof (induction xs)
  case Nil
  then show ?case by simp
next
  case (Cons y ys)
  show ?case
  proof (cases "asin_all (y # ys)")
    case (Inl er)
    then show ?thesis using asin_all_error by blast
  next
    case (Inr ps)
    then have ok: "- 1 \<le> y \<and> y \<le> 1" and "\<exists>qs. asin_all ys = Inr qs"
      by (auto simp: asin_def split: if_splits sum.splits)
    then have "x \<noteq> y" using Cons.prems by auto
    then have "asin_all ys = Inl ValueError" using Cons by simp
    with \<open>\<exists>qs. asin_all ys = Inr qs\<close> show ?thesis by simp
  qed
qed

section \<open>HSVCycleEffect with zero deltas\<close>

text \<open>C1, at a well-formed colour: with \<open>dH = dS = dV = 0\<close> and the default bounds, one
  step on the colour \<open>(H, S, V) = (0.6, 0.5, 0.5)\<close> leaves \<open>H\<close> but moves \<open>S\<close> and \<open>V\<close>
  from \<open>1/2\<close> to \<open>383/510\<close>: the phase is \<open>arcsin\<close> of the raw value, while the sinusoid
  is rescaled to \<open>[min, max]\<close>.\<close>

theorem HSVCycleEffect_zero_deltas_moves_S_V:
  "HSVCycle_step (HSVCycleEffect_init 0 0 0 (1 / 255) 1 (1 / 255) 1)
       [\<lparr>H = 6 / 10, S = 1 / 2, V = 1 / 2\<rparr>]
     = Inr (\<lparr>dH = 0, dS = 0, dV = 0, nsteps = 1,
             minS = 1 / 255, maxS = 1, Srange = 1 - 1 / 255,
             minV = 1 / 255, maxV = 1, Vrange = 1 - 1 / 255,
             Sinit = [arcsin (1 / 2)], Vinit = [arcsin (1 / 2)]\<rparr>,
            [\<lparr>H = 6 / 10, S = 383 / 510, V = 383 / 510\<rparr>])"
  by (simp add: HSVCycle_step_def HSVCycleEffect_init_def asin_def float_mod_nonneg fmod_def
      Let_def sin_30)

section \<open>SpreadResetEffect\<close>

text \<open>C9: SpreadResetEffect.step on any sequence of three colours yields three colours
  whose hues are each \<open>1/3\<close> (mod 1) after the previous one, cyclically, with the same
  \<open>S\<close> and the same \<open>V\<close>, whatever the input colours are. The module-level device list
  that the step reads is not empty (it has one device for each colour).\<close>

theorem SpreadResetEffect_three:
  assumes "length colours = 3" and "0 < ndevices"
  shows "\<exists>c0 c1 c2.
           SpreadReset_step ndevices colours = Inr [c0, c1, c2] \<and>
           fmod (H c1 - H c0) 1 = 1 / 3 \<and>
           fmod (H c2 - H c1) 1 = 1 / 3 \<and>
           fmod (H c0 - H c2) 1 = 1 / 3 \<and>
           S c0 = S c1 \<and> S c1 = S c2 \<and> V c0 = V c1 \<and> V c1 = V c2 \<and>
           [c0, c1, c2] = [\<lparr>H = 6 / 10, S = 99 / 100, V = 7 / 10\<rparr>,
                           \<lparr>H = 14 / 15, S = 99 / 100, V = 7 / 10\<rparr>,
                           \<lparr>H = 4 / 15, S = 99 / 100, V = 7 / 10\<rparr>]"
proof -
  obtain a b c where abc: "colours = [a, b, c]"
    using assms(1) by (auto simp: length_Suc_conv numeral_3_eq_3)
  obtain n where n: "ndevices = Suc n"
    using assms(2) by (cases ndevices) auto
  have "SpreadReset_step ndevices colours
           = Inr [\<lparr>H = 6 / 10, S = 99 / 100, V = 7 / 10\<rparr>,
                  \<lparr>H = 14 / 15, S = 99 / 100, V = 7 / 10\<rparr>,
                  \<lparr>H = 4 / 15, S = 99 / 100, V = 7 / 10\<rparr>]"
    unfolding abc n
    by (simp add: SpreadReset_step_def generateSpreadColours_def Let_def fmod_def
        upt_rec [of 0] nth_Cons')
  then show ?thesis by (simp add: fmod_def)
qed

theorem SpreadResetEffect_three_witness:
  "\<exists>c0 c1 c2.
     SpreadReset_step 3 [\<lparr>H = 0, S = 0, V = 0\<rparr>, \<lparr>H = 1 / 2, S = 1, V = 1\<rparr>,
                         \<lparr>H = 9 / 10, S = 1 / 2, V = 1 / 5\<rparr>] = Inr [c0, c1, c2] \<and>
     fmod (H c1 - H c0) 1 = 1 / 3 \<and>
     fmod (H c2 - H c1) 1 = 1 / 3 \<and>
     fmod (H c0 - H c2) 1 = 1 / 3 \<and>
     S c0 = S c1 \<and> S c1 = S c2 \<and> V c0 = V c1 \<and> V c1 = V c2"
  using SpreadResetEffect_three
          [of "[\<lparr>H = 0, S = 0, V = 0\<rparr>, \<lparr>H = 1 / 2, S = 1, V = 1\<rparr>,
                \<lparr>H = 9 / 10, S = 1 / 2, V = 1 / 5\<rparr>]" 3]
  by simp

section \<open>ChristmasEffect: the loop and its latch\<close>

lemma init_hues_Inr:
  "hs \<noteq> [] \<Longrightarrow> init_hues hs i cs
     = Inr (map (\<lambda>(j, c). c\<lparr>H := hs ! (j mod length hs)\<rparr>) (enumerate i cs))"
  by (induction cs arbitrary: i) simp_all

lemma init_hues_empty: "cs \<noteq> [] \<Longrightarrow> init_hues [] i cs = Inl ZeroDivisionError"
  by (cases cs) simp_all

lemma resolve_hues_Inr:
  "hs \<noteq> [] \<Longrightarrow> i + length cs \<le> length cur \<Longrightarrow>
   resolve_hues hs cur i cs
     = Inr (map (\<lambda>(j, c). c\<lparr>H := hs ! (cur ! j mod length hs)\<rparr>) (enumerate i cs))"
  by (induction cs arbitrary: i) simp_all

lemma resolve_hues_result:
  "resolve_hues hs cur i cs = Inr cs' \<Longrightarrow>
   cs' = map (\<lambda>(j, c). c\<lparr>H := hs ! (cur ! j mod length hs)\<rparr>) (enumerate i cs)"
  by (induction cs arbitrary: i cs') (auto split: if_splits sum.splits)

lemma resolve_hues_IndexError:
  "hs \<noteq> [] \<Longrightarrow> i \<le> length cur \<Longrightarrow> length cur < i + length cs \<Longrightarrow>
   resolve_hues hs cur i cs = Inl IndexError"
  by (induction cs arbitrary: i) (auto split: sum.splits)

lemma christmas_body_fire:
  assumes "latch_fires e cs i pv" and "christmas_body i pv (e, cs) = Inr (e', cs')"
  shows "e' = e\<lparr>current := map (\<lambda>j. j + 1) (current e), switched_c := True\<rparr>"
    and "length cs' = length cs"
    and "\<forall>j<length cs. H (cs' ! j) = hues e ! (current e' ! j mod length (hues e))"
proof -
  let ?cur = "map (\<lambda>j. j + 1) (current e)"
  obtain cs1 where r: "resolve_hues (hues e) ?cur 0 cs = Inr cs1"
    and e': "e' = e\<lparr>current := ?cur, switched_c := True\<rparr>"
    and cs': "cs' = cs1[length cs1 - 1 := (cs1 ! (length cs1 - 1))\<lparr>V := newV_c e pv\<rparr>]"
    using assms by (auto simp: christmas_body_def Let_def split: sum.splits)
  have cs1: "cs1 = map (\<lambda>(j, c). c\<lparr>H := hues e ! (?cur ! j mod length (hues e))\<rparr>) (enumerate 0 cs)"
    using resolve_hues_result [OF r] .
  show "e' = e\<lparr>current := ?cur, switched_c := True\<rparr>" by (rule e')
  show len: "length cs' = length cs" by (simp add: cs' cs1)
  show "\<forall>j<length cs. H (cs' ! j) = hues e ! (current e' ! j mod length (hues e))"
  proof (intro allI impI)
    fix j assume j: "j < length cs"
    have "H (cs' ! j) = H (cs1 ! j)"
      using j by (cases "j = length cs1 - 1") (simp_all add: cs' cs1)
    also have "\<dots> = hues e ! (?cur ! j mod length (hues e))"
      using j by (simp add: cs1 nth_enumerate_eq)
    finally show "H (cs' ! j) = hues e ! (current e' ! j mod length (hues e))"
      by (simp add: e')
  qed
qed

lemma christmas_body_no_fire:
  assumes "\<not> latch_fires e cs i pv"
  shows "christmas_body i pv (e, cs)
           = Inr (e\<lparr>switched_c := (if latch_releases e cs i pv then False else switched_c e)\<rparr>,
                  cs[i := (cs ! i)\<lparr>V := newV_c e pv\<rparr>])"
  using assms by (simp add: christmas_body_def Let_def)

lemma map_H_update_V: "map H (cs[i := (cs ! i)\<lparr>V := v\<rparr>]) = map H cs"
proof (cases "i < length cs")
  case True
  then show ?thesis by (simp add: map_update list_update_same_conv)
next
  case False
  then have "cs[i := (cs ! i)\<lparr>V := v\<rparr>] = cs" by (simp add: list_update_beyond)
  then show ?thesis by simp
qed

lemma christmas_loop_inv:
  "christmas_loop i pvs (e, cs) = Inr (e', cs') \<Longrightarrow>
   current e' = map (\<lambda>j. j + loop_fires i pvs (e, cs)) (current e) \<and>
   length cs' = length cs \<and> hues e' = hues e \<and> nsteps_c e' = nsteps_c e \<and>
   (loop_fires i pvs (e, cs) = 0 \<longrightarrow> map H cs' = map H cs)"
proof (induction pvs arbitrary: i e cs)
  case Nil
  then show ?case by simp
next
  case (Cons pv pvs)
  show ?case
  proof (cases "length cs \<le> i")
    case True
    then show ?thesis using Cons.prems by simp
  next
    case False
    then obtain e1 cs1 where b: "christmas_body i pv (e, cs) = Inr (e1, cs1)"
      and l: "christmas_loop (Suc i) pvs (e1, cs1) = Inr (e', cs')"
      using Cons.prems by (auto split: sum.splits)
    note ih = Cons.IH [OF l]
    show ?thesis
    proof (cases "latch_fires e cs i pv")
      case True
      note f = christmas_body_fire [OF True b]
      show ?thesis using False True b ih f(1,2)
        by (simp add: comp_def)
    next
      case nf: False
      have e1: "current e1 = current e" "hues e1 = hues e" "nsteps_c e1 = nsteps_c e"
        and cs1: "cs1 = cs[i := (cs ! i)\<lparr>V := newV_c e pv\<rparr>]"
        using b christmas_body_no_fire [OF nf] by auto
      show ?thesis using False nf b ih e1
        by (simp add: cs1 map_H_update_V)
    qed
  qed
qed

lemma christmas_prepare_later:
  "nsteps_c e \<noteq> 0 \<Longrightarrow> christmas_prepare e cs = Inr (e\<lparr>nsteps_c := nsteps_c e + 1\<rparr>, cs)"
  by (simp add: christmas_prepare_def)

lemma christmas_prepare_first:
  "nsteps_c e = 0 \<Longrightarrow> christmas_prepare e cs = Inr (e2, cs2) \<Longrightarrow>
   current e2 = [0..<length cs] \<and> length cs2 = length cs \<and> hues e2 = hues e \<and> nsteps_c e2 = 1"
  by (cases "hues e = []"; cases cs)
     (auto simp: christmas_prepare_def christmas_first_def Let_def init_hues_Inr
           split: sum.splits)

lemma Christmas_step_inv:
  assumes "Christmas_step e cs = Inr (e', cs')"
  shows "current e' = map (\<lambda>j. j + step_fires e cs)
                        (if nsteps_c e = 0 then [0..<length cs] else current e) \<and>
         length cs' = length cs \<and> hues e' = hues e \<and> nsteps_c e' = nsteps_c e + 1 \<and>
         (nsteps_c e \<noteq> 0 \<and> step_fires e cs = 0 \<longrightarrow> map H cs' = map H cs)"
proof -
  obtain e2 cs2 where p: "christmas_prepare e cs = Inr (e2, cs2)"
    and l: "christmas_loop 0 (Vinit_c e2) (e2, cs2) = Inr (e', cs')"
    using assms by (auto simp: Christmas_step_def split: sum.splits)
  have sf: "step_fires e cs = loop_fires 0 (Vinit_c e2) (e2, cs2)"
    by (simp add: step_fires_def p)
  note inv = christmas_loop_inv [OF l]
  show ?thesis
  proof (cases "nsteps_c e = 0")
    case True
    from christmas_prepare_first [OF True p] inv sf True show ?thesis by simp
  next
    case False
    from christmas_prepare_later [OF False, of cs] p
    have "e2 = e\<lparr>nsteps_c := nsteps_c e + 1\<rparr>" "cs2 = cs" by simp_all
    with inv sf False show ?thesis by simp
  qed
qed

lemma Christmas_run_later:
  "nsteps_c e \<noteq> 0 \<Longrightarrow> Christmas_run n (e, cs) = Inr (e', cs') \<Longrightarrow>
   current e' = map (\<lambda>j. j + run_fires n (e, cs)) (current e) \<and> length cs' = length cs"
proof (induction n arbitrary: e cs)
  case 0
  then show ?case by simp
next
  case (Suc n)
  then obtain e1 cs1 where s: "Christmas_step e cs = Inr (e1, cs1)"
    and r: "Christmas_run n (e1, cs1) = Inr (e', cs')"
    by (auto split: sum.splits)
  note inv = Christmas_step_inv [OF s]
  then have "nsteps_c e1 \<noteq> 0" by simp
  from Suc.IH [OF this r] inv Suc.prems(1) s show ?case
    by (simp add: comp_def add.assoc)
qed

lemma Christmas_run_first:
  assumes "nsteps_c e = 0" and "0 < n" and "Christmas_run n (e, cs) = Inr (e', cs')"
  shows "current e' = map (\<lambda>j. j + run_fires n (e, cs)) [0..<length cs]"
proof -
  obtain m where n: "n = Suc m" using assms(2) by (cases n) auto
  obtain e1 cs1 where s: "Christmas_step e cs = Inr (e1, cs1)"
    and r: "Christmas_run m (e1, cs1) = Inr (e', cs')"
    using assms(3) unfolding n by (auto split: sum.splits)
  note inv = Christmas_step_inv [OF s]
  then have "nsteps_c e1 \<noteq> 0" by simp
  from Christmas_run_later [OF this r] inv assms(1) s show ?thesis
    unfolding n by (simp add: comp_def add.assoc del: upt_Suc map_upt_Suc)
qed

text \<open>C3 (amended): in ChristmasEffect.step a single shared \<open>switched\<close> flag governs the
  hue changes. In a loop iteration where a device's newly computed \<open>V\<close> exceeds its current
  \<open>V\<close> while \<open>switched\<close> is false, every palette index advances by exactly 1, every
  device's hue is re-resolved from the palette modulo its length, and \<open>switched\<close> becomes
  true; in an iteration where the new \<open>V\<close> is below the current \<open>V\<close> while \<open>switched\<close> is
  true, \<open>switched\<close> becomes false and no index or hue changes; in any other iteration
  nothing but that \<open>V\<close> changes. At every step other than the first step of a run in which
  the latch does not fire, no device's \<open>H\<close> and no palette index changes (the first step
  assigns \<open>hues[i mod len(hues)]\<close> to every device, latch or not). Consequently, with
  \<open>hues = [0, 0.5]\<close> and two devices, a run from a new effect in which the latch fired
  once, released or not, leaves the palette indices at \<open>[0 + 1, 1 + 1]\<close>.\<close>

theorem ChristmasEffect_latch:
  "(latch_fires e cs i pv \<and> christmas_body i pv (e, cs) = Inr (e1, cs1) \<longrightarrow>
      current e1 = map (\<lambda>j. j + 1) (current e) \<and> switched_c e1 = True \<and>
      length cs1 = length cs \<and>
      (\<forall>j<length cs. H (cs1 ! j) = hues e ! (current e1 ! j mod length (hues e)))) \<and>
   (latch_releases e cs i pv \<and> christmas_body i pv (e, cs) = Inr (e1, cs1) \<longrightarrow>
      switched_c e1 = False \<and> current e1 = current e \<and> map H cs1 = map H cs) \<and>
   (\<not> latch_fires e cs i pv \<and> \<not> latch_releases e cs i pv \<and>
    christmas_body i pv (e, cs) = Inr (e1, cs1) \<longrightarrow>
      switched_c e1 = switched_c e \<and> current e1 = current e \<and> map H cs1 = map H cs) \<and>
   (nsteps_c e \<noteq> 0 \<and> step_fires e cs = 0 \<and> Christmas_step e cs = Inr (e2, cs2) \<longrightarrow>
      map H cs2 = map H cs \<and> current e2 = current e) \<and>
   (run_fires n (ChristmasEffect_init v mn mx [0, 1 / 2], [c0, c1]) = 1 \<and>
    Christmas_run n (ChristmasEffect_init v mn mx [0, 1 / 2], [c0, c1]) = Inr (e3, cs3) \<longrightarrow>
      current e3 = [0 + 1, 1 + 1])"
proof -
  have fire: "latch_fires e cs i pv \<and> christmas_body i pv (e, cs) = Inr (e1, cs1) \<longrightarrow>
      current e1 = map (\<lambda>j. j + 1) (current e) \<and> switched_c e1 = True \<and>
      length cs1 = length cs \<and>
      (\<forall>j<length cs. H (cs1 ! j) = hues e ! (current e1 ! j mod length (hues e)))"
  proof (intro impI, elim conjE)
    assume f: "latch_fires e cs i pv" and b: "christmas_body i pv (e, cs) = Inr (e1, cs1)"
    note r = christmas_body_fire [OF f b]
    have "current e1 = map (\<lambda>j. j + 1) (current e)" "switched_c e1 = True"
      by (simp_all add: r(1))
    with r(2,3) show "current e1 = map (\<lambda>j. j + 1) (current e) \<and> switched_c e1 = True \<and>
      length cs1 = length cs \<and>
      (\<forall>j<length cs. H (cs1 ! j) = hues e ! (current e1 ! j mod length (hues e)))"
      by blast
  qed
  have release: "latch_releases e cs i pv \<and> christmas_body i pv (e, cs) = Inr (e1, cs1) \<longrightarrow>
      switched_c e1 = False \<and> current e1 = current e \<and> map H cs1 = map H cs"
  proof (intro impI, elim conjE)
    assume r: "latch_releases e cs i pv" and b: "christmas_body i pv (e, cs) = Inr (e1, cs1)"
    from r have "\<not> latch_fires e cs i pv" by (simp add: latch_releases_def latch_fires_def)
    from christmas_body_no_fire [OF this] b r
    show "switched_c e1 = False \<and> current e1 = current e \<and> map H cs1 = map H cs"
      by (auto simp: map_H_update_V)
  qed
  have idle: "\<not> latch_fires e cs i pv \<and> \<not> latch_releases e cs i pv \<and>
    christmas_body i pv (e, cs) = Inr (e1, cs1) \<longrightarrow>
      switched_c e1 = switched_c e \<and> current e1 = current e \<and> map H cs1 = map H cs"
    using christmas_body_no_fire [of e cs i pv] by (auto simp: map_H_update_V)
  have quiet: "nsteps_c e \<noteq> 0 \<and> step_fires e cs = 0 \<and> Christmas_step e cs = Inr (e2, cs2) \<longrightarrow>
      map H cs2 = map H cs \<and> current e2 = current e"
    using Christmas_step_inv [of e cs e2 cs2] by simp
  let ?e0 = "ChristmasEffect_init v mn mx [0, 1 / 2]"
  have cycle: "run_fires n (?e0, [c0, c1]) = 1 \<and> Christmas_run n (?e0, [c0, c1]) = Inr (e3, cs3) \<longrightarrow>
      current e3 = [0 + 1, 1 + 1]"
  proof (intro impI, elim conjE)
    assume one: "run_fires n (?e0, [c0, c1]) = 1"
      and r: "Christmas_run n (?e0, [c0, c1]) = Inr (e3, cs3)"
    have "0 < n" using one by (cases n) auto
    moreover have "nsteps_c ?e0 = 0" by (simp add: ChristmasEffect_init_def)
    ultimately have "current e3 = map (\<lambda>j. j + run_fires n (?e0, [c0, c1])) [0..<length [c0, c1]]"
      using r Christmas_run_first by blast
    then show "current e3 = [0 + 1, 1 + 1]" by (simp add: one upt_rec [of 0])
  qed
  from fire release idle quiet cycle show ?thesis by (intro conjI)
qed

lemmas christmas_eval =
  Christmas_step_def christmas_prepare_def christmas_first_def ChristmasEffect_init_def
  asin_def christmas_body_def newV_c_def latch_fires_def latch_releases_def Let_def
  step_fires_def

lemma cos_tenth_bound: "1 / 255 + (71 + 71 * cos (1 / 10)) / (204::real) < 1"
  using cos_le_one [of "1 / 10 :: real"] by argo

text \<open>C3, at an input where the claim as stated fails: on the first step of a run the latch
  does not fire for two devices at \<open>V = 1\<close>, and yet both hues change, from \<open>0.6\<close> and
  \<open>0.8\<close> to the palette entries \<open>0\<close> and \<open>0.5\<close>.\<close>

theorem ChristmasEffect_first_step_sets_hues:
  "step_fires (ChristmasEffect_init (1 / 10) (1 / 255) (7 / 10) [0, 1 / 2])
       [\<lparr>H = 6 / 10, S = 99 / 100, V = 1\<rparr>, \<lparr>H = 8 / 10, S = 99 / 100, V = 1\<rparr>] = 0
   \<and> Christmas_step (ChristmasEffect_init (1 / 10) (1 / 255) (7 / 10) [0, 1 / 2])
       [\<lparr>H = 6 / 10, S = 99 / 100, V = 1\<rparr>, \<lparr>H = 8 / 10, S = 99 / 100, V = 1\<rparr>]
     = Inr (\<lparr>dV_c = 1 / 10, minV_c = 1 / 255, maxV_c = 7 / 10, Vrange_c = 7 / 10 - 1 / 255,
             hues = [0, 1 / 2], nsteps_c = 1, switched_c = False, current = [0, 1],
             Vinit_c = [arcsin 1, arcsin 1], steps = None\<rparr>,
            [\<lparr>H = 0, S = 99 / 100,
              V = 1 / 255 + (7 / 10 - 1 / 255) * (1 + sin (arcsin 1 + 1 / 10 * 1)) / 2\<rparr>,
             \<lparr>H = 1 / 2, S = 99 / 100,
              V = 1 / 255 + (7 / 10 - 1 / 255) * (1 + sin (arcsin 1 + 1 / 10 * 1)) / 2\<rparr>])"
  using cos_tenth_bound by (simp add: christmas_eval sin_add)

theorem ChristmasEffect_latch_witness:
  "(latch_fires
      \<lparr>dV_c = 0, minV_c = 1 / 255, maxV_c = 7 / 10, Vrange_c = 7 / 10 - 1 / 255,
       hues = [0, 1 / 2], nsteps_c = 1, switched_c = False, current = [0, 1],
       Vinit_c = [0, 0], steps = None\<rparr>
      [\<lparr>H = 0, S = 1, V = 0\<rparr>, \<lparr>H = 1 / 2, S = 1, V = 0\<rparr>] 0 0
    \<and> current
      \<lparr>dV_c = 0, minV_c = 1 / 255, maxV_c = 7 / 10, Vrange_c = 7 / 10 - 1 / 255,
       hues = [0, 1 / 2], nsteps_c = 1, switched_c = True, current = [1, 2],
       Vinit_c = [0, 0], steps = None\<rparr>
      = map (\<lambda>j. j + 1) [0, 1])
   \<and> (latch_releases
      \<lparr>dV_c = 0, minV_c = 1 / 255, maxV_c = 7 / 10, Vrange_c = 7 / 10 - 1 / 255,
       hues = [0, 1 / 2], nsteps_c = 1, switched_c = True, current = [0, 1],
       Vinit_c = [0, 0], steps = None\<rparr>
      [\<lparr>H = 0, S = 1, V = 1\<rparr>, \<lparr>H = 1 / 2, S = 1, V = 1\<rparr>] 0 0
    \<and> map H [\<lparr>H = 0, S = 1, V = 1 / 255 + (7 / 10 - 1 / 255) / 2\<rparr>, \<lparr>H = 1 / 2, S = 1, V = 1\<rparr>]
      = map H [\<lparr>H = 0, S = 1, V = 1\<rparr>, \<lparr>H = 1 / 2, S = 1, V = 1\<rparr>])
   \<and> (step_fires
      \<lparr>dV_c = 0, minV_c = 1 / 255, maxV_c = 7 / 10, Vrange_c = 7 / 10 - 1 / 255,
       hues = [0, 1 / 2], nsteps_c = 1, switched_c = False, current = [0, 1],
       Vinit_c = [0, 0], steps = None\<rparr>
      [\<lparr>H = 0, S = 1, V = 1\<rparr>, \<lparr>H = 1 / 2, S = 1, V = 1\<rparr>] = 0
    \<and> map H [\<lparr>H = 0, S = 1, V = 1 / 255 + (7 / 10 - 1 / 255) / 2\<rparr>,
              \<lparr>H = 1 / 2, S = 1, V = 1 / 255 + (7 / 10 - 1 / 255) / 2\<rparr>]
      = map H [\<lparr>H = 0, S = 1, V = 1\<rparr>, \<lparr>H = 1 / 2, S = 1, V = 1\<rparr>])
   \<and> (run_fires 1 (ChristmasEffect_init 0 (1 / 255) (7 / 10) [0, 1 / 2],
                    [\<lparr>H = 6 / 10, S = 1, V = 1 / 5\<rparr>, \<lparr>H = 8 / 10, S = 1, V = 0\<rparr>]) = 1
    \<and> current
      \<lparr>dV_c = 0, minV_c = 1 / 255, maxV_c = 7 / 10, Vrange_c = 7 / 10 - 1 / 255,
       hues = [0, 1 / 2], nsteps_c = 1, switched_c = False, current = [1, 2],
       Vinit_c = [arcsin (1 / 5), 0], steps = None\<rparr> = [0 + 1, 1 + 1])"
proof -
  let ?eF = "\<lparr>dV_c = 0, minV_c = 1 / 255, maxV_c = 7 / 10, Vrange_c = 7 / 10 - 1 / 255,
       hues = [0, 1 / 2], nsteps_c = 1, switched_c = False, current = [0, 1],
       Vinit_c = [0, 0], steps = None\<rparr>"
  let ?eR = "?eF\<lparr>switched_c := True\<rparr>"
  let ?csA = "[\<lparr>H = 0, S = 1, V = 0\<rparr>, \<lparr>H = 1 / 2, S = 1, V = 0\<rparr>]"
  let ?csQ = "[\<lparr>H = 0, S = 1, V = 1\<rparr>, \<lparr>H = 1 / 2, S = 1, V = 1\<rparr>]"
  let ?mid = "1 / 255 + (7 / 10 - 1 / 255) / (2::real)"
  let ?e0 = "ChristmasEffect_init 0 (1 / 255) (7 / 10) [0, 1 / 2]"
  let ?cs0 = "[\<lparr>H = 6 / 10, S = 1, V = 1 / 5\<rparr>, \<lparr>H = 8 / 10, S = 1, V = 0\<rparr>]"
  let ?e3 = "\<lparr>dV_c = 0, minV_c = 1 / 255, maxV_c = 7 / 10, Vrange_c = 7 / 10 - 1 / 255,
       hues = [0, 1 / 2], nsteps_c = 1, switched_c = False, current = [1, 2],
       Vinit_c = [arcsin (1 / 5), 0], steps = None\<rparr>"
  have f: "latch_fires ?eF ?csA 0 0"
    by (simp add: christmas_eval)
  have fb: "christmas_body 0 0 (?eF, ?csA)
              = Inr (?eF\<lparr>current := [1, 2], switched_c := True\<rparr>,
                     [\<lparr>H = 1 / 2, S = 1, V = 0\<rparr>, \<lparr>H = 0, S = 1, V = ?mid\<rparr>])"
    by (simp add: christmas_eval)
  have r: "latch_releases ?eR ?csQ 0 0"
    by (simp add: christmas_eval)
  have rb: "christmas_body 0 0 (?eR, ?csQ)
              = Inr (?eF, [\<lparr>H = 0, S = 1, V = ?mid\<rparr>, \<lparr>H = 1 / 2, S = 1, V = 1\<rparr>])"
    by (simp add: christmas_eval)
  have q: "nsteps_c ?eF \<noteq> 0" "step_fires ?eF ?csQ = 0"
    by (simp_all add: christmas_eval)
  have qs: "Christmas_step ?eF ?csQ
              = Inr (?eF\<lparr>nsteps_c := 2\<rparr>,
                     [\<lparr>H = 0, S = 1, V = ?mid\<rparr>, \<lparr>H = 1 / 2, S = 1, V = ?mid\<rparr>])"
    by (simp add: christmas_eval)
  have c: "run_fires 1 (?e0, ?cs0) = 1"
    by (simp add: christmas_eval)
  have cr: "Christmas_run 1 (?e0, ?cs0)
              = Inr (?e3, [\<lparr>H = 1 / 2, S = 1, V = 1 / 5\<rparr>, \<lparr>H = 0, S = 1, V = ?mid\<rparr>])"
    by (simp add: christmas_eval)
  note t1 = ChristmasEffect_latch [of ?eF ?csA 0 0 "?eF\<lparr>current := [1, 2], switched_c := True\<rparr>"
      "[\<lparr>H = 1 / 2, S = 1, V = 0\<rparr>, \<lparr>H = 0, S = 1, V = ?mid\<rparr>]"]
  note t2 = ChristmasEffect_latch [of ?eR ?csQ 0 0 ?eF
      "[\<lparr>H = 0, S = 1, V = ?mid\<rparr>, \<lparr>H = 1 / 2, S = 1, V = 1\<rparr>]"]
  note t3 = ChristmasEffect_latch [of ?eF ?csQ 0 0 _ _ "?eF\<lparr>nsteps_c := 2\<rparr>"
      "[\<lparr>H = 0, S = 1, V = ?mid\<rparr>, \<lparr>H = 1 / 2, S = 1, V = ?mid\<rparr>]"]
  note t4 = ChristmasEffect_latch [of _ _ _ _ _ _ _ _ 1 0 "1 / 255" "7 / 10"
      "\<lparr>H = 6 / 10, S = 1, V = 1 / 5\<rparr>" "\<lparr>H = 8 / 10, S = 1, V = 0\<rparr>" ?e3
      "[\<lparr>H = 1 / 2, S = 1, V = 1 / 5\<rparr>, \<lparr>H = 0, S = 1, V = ?mid\<rparr>]"]
  from t1 f fb have w1: "current (?eF\<lparr>current := [1, 2], switched_c := True\<rparr>)
      = map (\<lambda>j. j + 1) (current ?eF)" by blast
  from t2 r rb have w2: "map H [\<lparr>H = 0, S = 1, V = ?mid\<rparr>, \<lparr>H = 1 / 2, S = 1, V = 1\<rparr>] = map H ?csQ"
    by blast
  from t3 q qs have w3: "map H [\<lparr>H = 0, S = 1, V = ?mid\<rparr>, \<lparr>H = 1 / 2, S = 1, V = ?mid\<rparr>]
      = map H ?csQ" by blast
  from t4 c cr have w4: "current ?e3 = [0 + 1, 1 + 1]" by blast
  from f r q(2) c w1 w2 w3 w4 show ?thesis by simp
qed

section \<open>ChristmasEffect.reset\<close>

lemma sin_tenth_bound: "0 < 1 / 255 + (71 + 71 * sin (1 / 10)) / (204::real)"
  using sin_ge_minus_one [of "1 / 10 :: real"] by argo

lemma sin_fifth_bound: "1 / 255 + (71 + 71 * sin (1 / 5)) / (204::real) < 1"
  using sin_le_one [of "1 / 5 :: real"] by argo

text \<open>C4, at a concrete run with the default parameters. A first step on a colour with
  \<open>V = 0\<close> leaves the counter at 1. After \<open>reset\<close> the counter is still 1 (only the new
  attribute \<open>steps\<close> is 0), and the next step, on the colour \<open>(0.6, 0.99, 1)\<close>, does not
  initialise: the hue stays \<open>0.6\<close>, the phase stays \<open>[0]\<close>, the palette index stays
  \<open>[1]\<close> and the counter goes to 2. A first call on that colour sets the hue to
  \<open>hues[0] = 0\<close>, the phase to \<open>[arcsin 1]\<close>, the index to \<open>[0]\<close> and the counter to 1.\<close>

theorem Christmas_reset_keeps_counter:
  "Christmas_step (ChristmasEffect_init (1 / 10) (1 / 255) (7 / 10) [0, 51 / 360, 33 / 100])
       [\<lparr>H = 6 / 10, S = 99 / 100, V = 0\<rparr>]
    = Inr (\<lparr>dV_c = 1 / 10, minV_c = 1 / 255, maxV_c = 7 / 10, Vrange_c = 7 / 10 - 1 / 255,
            hues = [0, 51 / 360, 33 / 100], nsteps_c = 1, switched_c = True, current = [1],
            Vinit_c = [0], steps = None\<rparr>,
           [\<lparr>H = 51 / 360, S = 99 / 100,
             V = 1 / 255 + (7 / 10 - 1 / 255) * (1 + sin (1 / 10)) / 2\<rparr>])
   \<and> Christmas_step
      (Christmas_reset
         \<lparr>dV_c = 1 / 10, minV_c = 1 / 255, maxV_c = 7 / 10, Vrange_c = 7 / 10 - 1 / 255,
          hues = [0, 51 / 360, 33 / 100], nsteps_c = 1, switched_c = True, current = [1],
          Vinit_c = [0], steps = None\<rparr>)
       [\<lparr>H = 6 / 10, S = 99 / 100, V = 1\<rparr>]
    = Inr (\<lparr>dV_c = 1 / 10, minV_c = 1 / 255, maxV_c = 7 / 10, Vrange_c = 7 / 10 - 1 / 255,
            hues = [0, 51 / 360, 33 / 100], nsteps_c = 2, switched_c = False, current = [1],
            Vinit_c = [0], steps = Some 0\<rparr>,
           [\<lparr>H = 6 / 10, S = 99 / 100,
             V = 1 / 255 + (7 / 10 - 1 / 255) * (1 + sin (2 / 10)) / 2\<rparr>])
   \<and> Christmas_step (ChristmasEffect_init (1 / 10) (1 / 255) (7 / 10) [0, 51 / 360, 33 / 100])
       [\<lparr>H = 6 / 10, S = 99 / 100, V = 1\<rparr>]
    = Inr (\<lparr>dV_c = 1 / 10, minV_c = 1 / 255, maxV_c = 7 / 10, Vrange_c = 7 / 10 - 1 / 255,
            hues = [0, 51 / 360, 33 / 100], nsteps_c = 1, switched_c = False, current = [0],
            Vinit_c = [arcsin 1], steps = None\<rparr>,
           [\<lparr>H = 0, S = 99 / 100,
             V = 1 / 255 + (7 / 10 - 1 / 255) * (1 + sin (arcsin 1 + 1 / 10)) / 2\<rparr>])"
  using sin_tenth_bound sin_fifth_bound cos_tenth_bound
  by (simp add: christmas_eval Christmas_reset_def sin_add)

section \<open>Totality of the first step and length mismatches\<close>

lemma christmas_body_ok:
  assumes "hues e \<noteq> []" and "length cs \<le> length (current e)"
  shows "\<exists>e' cs'. christmas_body i pv (e, cs) = Inr (e', cs') \<and> hues e' = hues e \<and>
           length (current e') = length (current e) \<and> length cs' = length cs"
proof (cases "latch_fires e cs i pv")
  case True
  have "resolve_hues (hues e) (map (\<lambda>j. j + 1) (current e)) 0 cs
          = Inr (map (\<lambda>(j, c). c\<lparr>H := hues e ! (map (\<lambda>j. j + 1) (current e) ! j mod length (hues e))\<rparr>)
                   (enumerate 0 cs))"
    using assms by (intro resolve_hues_Inr) simp_all
  with True show ?thesis by (simp add: christmas_body_def Let_def)
next
  case False
  then show ?thesis by (simp add: christmas_body_no_fire)
qed

lemma christmas_loop_ok:
  "hues e \<noteq> [] \<Longrightarrow> length cs \<le> length (current e) \<Longrightarrow>
   \<exists>e' cs'. christmas_loop i pvs (e, cs) = Inr (e', cs') \<and> length cs' = length cs"
proof (induction pvs arbitrary: i e cs)
  case Nil
  then show ?case by simp
next
  case (Cons pv pvs)
  from christmas_body_ok [OF Cons.prems, of i pv]
  obtain e1 cs1 where b: "christmas_body i pv (e, cs) = Inr (e1, cs1)"
    and k: "hues e1 = hues e" "length (current e1) = length (current e)" "length cs1 = length cs"
    by blast
  from Cons.IH [of e1 cs1 "Suc i"] Cons.prems k
  obtain e' cs' where "christmas_loop (Suc i) pvs (e1, cs1) = Inr (e', cs')" "length cs' = length cs1"
    by auto
  with b k show ?case by simp
qed

lemma Christmas_step_first_ok:
  assumes "nsteps_c x = 0" and "hues x \<noteq> []" and "\<forall>c\<in>set colours. - 1 \<le> V c \<and> V c \<le> 1"
  shows "\<exists>x' cs'. Christmas_step x colours = Inr (x', cs')"
proof -
  have a: "asin_all (map V colours) = Inr (map arcsin (map V colours))"
    using assms(3) by (intro asin_all_ok) simp
  let ?cs = "map (\<lambda>(j, c). c\<lparr>H := hues x ! (j mod length (hues x))\<rparr>) (enumerate 0 colours)"
  let ?e2 = "x\<lparr>current := [0..<length colours], Vinit_c := map arcsin (map V colours), nsteps_c := 1\<rparr>"
  have p: "christmas_prepare x colours = Inr (?e2, ?cs)"
    using assms(1,2) a by (simp add: christmas_prepare_def christmas_first_def Let_def init_hues_Inr)
  have "\<exists>e' cs'. christmas_loop 0 (Vinit_c ?e2) (?e2, ?cs) = Inr (e', cs') \<and> length cs' = length ?cs"
    using assms(2) by (intro christmas_loop_ok) simp_all
  then show ?thesis by (auto simp: Christmas_step_def p)
qed

lemma Christmas_step_later_ok:
  assumes "nsteps_c x \<noteq> 0" and "hues x \<noteq> []" and "length cs \<le> length (current x)"
  shows "\<exists>x' cs'. Christmas_step x cs = Inr (x', cs') \<and> length cs' = length cs"
proof -
  let ?e2 = "x\<lparr>nsteps_c := nsteps_c x + 1\<rparr>"
  have "\<exists>e' cs'. christmas_loop 0 (Vinit_c ?e2) (?e2, cs) = Inr (e', cs') \<and> length cs' = length cs"
    using assms(2,3) by (intro christmas_loop_ok) simp_all
  then show ?thesis
    by (auto simp: Christmas_step_def christmas_prepare_later [OF assms(1)])
qed

lemma HSVCycle_step_first_ok:
  assumes "nsteps e = 0" and "\<forall>c\<in>set colours. - 1 \<le> S c \<and> S c \<le> 1 \<and> - 1 \<le> V c \<and> V c \<le> 1"
  shows "\<exists>e' cs'. HSVCycle_step e colours = Inr (e', cs')"
proof -
  have "asin_all (map S colours) = Inr (map arcsin (map S colours))"
       "asin_all (map V colours) = Inr (map arcsin (map V colours))"
    using assms(2) by (intro asin_all_ok; simp)+
  then show ?thesis using assms(1) by (simp add: HSVCycle_step_def Let_def)
qed

lemma HSVCycle_step_first_fails:
  assumes "nsteps e = 0" and "c \<in> set colours" and "1 < S c \<or> 1 < V c"
  shows "HSVCycle_step e colours = Inl ValueError"
proof (cases "asin_all (map S colours)")
  case (Inl er)
  then show ?thesis using assms(1) asin_all_error [OF Inl] by (simp add: HSVCycle_step_def)
next
  case (Inr si)
  have "\<not> 1 < S c"
  proof
    assume "1 < S c"
    then have "asin_all (map S colours) = Inl ValueError"
      using assms(2) by (intro asin_all_fails [of "S c"]) simp_all
    with Inr show False by simp
  qed
  then have "1 < V c" using assms(3) by simp
  then have "asin_all (map V colours) = Inl ValueError"
    using assms(2) by (intro asin_all_fails [of "V c"]) simp_all
  then show ?thesis using assms(1) Inr by (simp add: HSVCycle_step_def)
qed

lemma Christmas_step_first_fails:
  assumes "nsteps_c x = 0" and "c \<in> set colours" and "1 < V c"
  shows "Christmas_step x colours = Inl ValueError"
proof -
  have "asin_all (map V colours) = Inl ValueError"
    using assms(2,3) by (intro asin_all_fails [of "V c"]) simp_all
  then show ?thesis using assms(1)
    by (simp add: Christmas_step_def christmas_prepare_def christmas_first_def Let_def)
qed

text \<open>C10, at an input where the claim as stated fails: with an empty palette the first
  step of ChristmasEffect raises ZeroDivisionError on a colour whose \<open>S\<close> and \<open>V\<close> lie in
  \<open>[0, 1]\<close>.\<close>

theorem ChristmasEffect_empty_palette_fails:
  "Christmas_step (ChristmasEffect_init (1 / 10) (1 / 255) (7 / 10) [])
       [\<lparr>H = 6 / 10, S = 99 / 100, V = 7 / 10\<rparr>] = Inl ZeroDivisionError"
  by (simp add: christmas_eval)

text \<open>C10 (amended): for every colour sequence in which every colour's \<open>S\<close> and \<open>V\<close> lie
  in \<open>[0, 1]\<close>, the first step of HSVCycleEffect returns, and so does the first step of a
  ChristmasEffect whose palette is not empty: the arcsin of the phase offsets is applied
  only to arguments in its domain. The bound is a genuine precondition: a colour with
  \<open>S > 1\<close> or \<open>V > 1\<close> makes the first step of HSVCycleEffect raise ValueError, and a
  colour with \<open>V > 1\<close> makes the first step of ChristmasEffect raise ValueError.\<close>

theorem first_step_total:
  "(nsteps e = 0 \<and> (\<forall>c\<in>set colours. 0 \<le> S c \<and> S c \<le> 1 \<and> 0 \<le> V c \<and> V c \<le> 1) \<longrightarrow>
      (\<exists>e' cs'. HSVCycle_step e colours = Inr (e', cs'))) \<and>
   (nsteps_c x = 0 \<and> hues x \<noteq> [] \<and>
    (\<forall>c\<in>set colours. 0 \<le> S c \<and> S c \<le> 1 \<and> 0 \<le> V c \<and> V c \<le> 1) \<longrightarrow>
      (\<exists>x' cs'. Christmas_step x colours = Inr (x', cs'))) \<and>
   (nsteps e = 0 \<and> c \<in> set colours \<and> (1 < S c \<or> 1 < V c) \<longrightarrow>
      HSVCycle_step e colours = Inl ValueError) \<and>
   (nsteps_c x = 0 \<and> c \<in> set colours \<and> 1 < V c \<longrightarrow>
      Christmas_step x colours = Inl ValueError)"
proof -
  have a: "nsteps e = 0 \<and> (\<forall>c\<in>set colours. 0 \<le> S c \<and> S c \<le> 1 \<and> 0 \<le> V c \<and> V c \<le> 1) \<longrightarrow>
      (\<exists>e' cs'. HSVCycle_step e colours = Inr (e', cs'))"
    by (intro impI HSVCycle_step_first_ok) auto
  have b: "nsteps_c x = 0 \<and> hues x \<noteq> [] \<and>
    (\<forall>c\<in>set colours. 0 \<le> S c \<and> S c \<le> 1 \<and> 0 \<le> V c \<and> V c \<le> 1) \<longrightarrow>
      (\<exists>x' cs'. Christmas_step x colours = Inr (x', cs'))"
    by (intro impI Christmas_step_first_ok) auto
  have c: "nsteps e = 0 \<and> c \<in> set colours \<and> (1 < S c \<or> 1 < V c) \<longrightarrow>
      HSVCycle_step e colours = Inl ValueError"
    using HSVCycle_step_first_fails [of e c colours] by blast
  have d: "nsteps_c x = 0 \<and> c \<in> set colours \<and> 1 < V c \<longrightarrow>
      Christmas_step x colours = Inl ValueError"
    using Christmas_step_first_fails [of x c colours] by blast
  from a b c d show ?thesis by (intro conjI)
qed

theorem first_step_total_witness:
  "(\<exists>e' cs'. HSVCycle_step (HSVCycleEffect_init (5 / 100) 0 0 (1 / 255) 1 (1 / 255) 1)
                 [\<lparr>H = 6 / 10, S = 99 / 100, V = 7 / 10\<rparr>] = Inr (e', cs')) \<and>
   (\<exists>x' cs'. Christmas_step (ChristmasEffect_init (1 / 10) (1 / 255) (7 / 10) [0, 51 / 360, 33 / 100])
                 [\<lparr>H = 6 / 10, S = 99 / 100, V = 7 / 10\<rparr>] = Inr (x', cs')) \<and>
   HSVCycle_step (HSVCycleEffect_init (5 / 100) 0 0 (1 / 255) 1 (1 / 255) 1)
      [\<lparr>H = 6 / 10, S = 2, V = 7 / 10\<rparr>] = Inl ValueError \<and>
   Christmas_step (ChristmasEffect_init (1 / 10) (1 / 255) (7 / 10) [0, 51 / 360, 33 / 100])
      [\<lparr>H = 6 / 10, S = 2, V = 2\<rparr>] = Inl ValueError"
  using first_step_total [of "HSVCycleEffect_init (5 / 100) 0 0 (1 / 255) 1 (1 / 255) 1"
          "[\<lparr>H = 6 / 10, S = 99 / 100, V = 7 / 10\<rparr>]"
          "ChristmasEffect_init (1 / 10) (1 / 255) (7 / 10) [0, 51 / 360, 33 / 100]"]
        first_step_total [of "HSVCycleEffect_init (5 / 100) 0 0 (1 / 255) 1 (1 / 255) 1"
          "[\<lparr>H = 6 / 10, S = 2, V = 7 / 10\<rparr>]" _ "\<lparr>H = 6 / 10, S = 2, V = 7 / 10\<rparr>"]
        first_step_total [of _
          "[\<lparr>H = 6 / 10, S = 2, V = 2\<rparr>]"
          "ChristmasEffect_init (1 / 10) (1 / 255) (7 / 10) [0, 51 / 360, 33 / 100]"
          "\<lparr>H = 6 / 10, S = 2, V = 2\<rparr>"]
  by (simp add: HSVCycleEffect_init_def ChristmasEffect_init_def)

lemma length_cycle_loop: "length (cycle_loop e cs pss pvs) = length cs"
  by (induction e cs pss pvs rule: cycle_loop.induct) simp_all

lemma cycle_loop_beyond:
  "i < length cs \<Longrightarrow> min (length pss) (length pvs) \<le> i \<Longrightarrow> cycle_loop e cs pss pvs ! i = cs ! i"
  by (induction e cs pss pvs arbitrary: i rule: cycle_loop.induct) (auto simp: nth_Cons')

lemma cycle_loop_within:
  "i < length cs \<Longrightarrow> i < min (length pss) (length pvs) \<Longrightarrow>
   cycle_loop e cs pss pvs ! i =
     (cs ! i)\<lparr>H := float_mod (H (cs ! i) + dH e) 1,
               S := minS e + Srange e * (1 + sin (pss ! i + dS e * real (nsteps e))) / 2,
               V := minV e + Vrange e * (1 + sin (pvs ! i + dV e * real (nsteps e))) / 2\<rparr>"
proof (induction e cs pss pvs arbitrary: i rule: cycle_loop.induct)
  case (1 e c cs ps pss pv pvs)
  then show ?case by (cases i) simp_all
qed simp_all

lemma ChristmasR_step_ok:
  assumes "cs \<noteq> []"
  shows "\<exists>e' cs' g'. ChristmasR_step e cs g = Inr (e', cs', g') \<and> length cs' = length cs"
proof -
  have s: "\<And>xs h. length xs = length cs \<Longrightarrow>
             \<exists>ys h'. setrandomhues xs h = Inr (ys, h') \<and> length ys = length cs"
    using assms by (simp add: setrandomhues_def random_def Let_def)
  obtain cs1 g1 where i: "(if nsteps_r e = 0
            then setrandomhues (map (\<lambda>c. c\<lparr>V := Vinit_r e\<rparr>) cs) g
            else Inr (cs, g)) = Inr (cs1, g1)" and l1: "length cs1 = length cs"
    using s [of "map (\<lambda>c. c\<lparr>V := Vinit_r e\<rparr>) cs" g] by (cases "nsteps_r e = 0") auto
  from s [OF l1, of g1] obtain cs2 g2 where r: "setrandomhues cs1 g1 = Inr (cs2, g2)"
    and l2: "length cs2 = length cs" by blast
  show ?thesis
    using i l1 r l2 by (simp add: ChristmasR_step_def Let_def)
qed

lemma ra_loop_ok:
  "i + min (length cs) (min (length pvs) (length szs)) \<le> length sw \<Longrightarrow>
   \<exists>cs' sw' g'. ra_loop e i cs pvs szs sw g = Inr (cs', sw', g') \<and>
      length cs' = length cs \<and> length sw' = length sw \<and>
      (\<forall>j<length cs. min (length pvs) (length szs) \<le> j \<longrightarrow> cs' ! j = cs ! j)"
proof (induction cs arbitrary: i pvs szs sw g)
  case Nil
  then show ?case by simp
next
  case (Cons c cs)
  show ?case
  proof (cases "pvs = [] \<or> szs = []")
    case True
    then have "ra_loop e i (c # cs) pvs szs sw g = Inr (c # cs, sw, g)"
      by (cases pvs; cases szs) simp_all
    then show ?thesis by simp
  next
    case False
    then obtain pv pvs' sz szs' where l: "pvs = pv # pvs'" "szs = sz # szs'"
      by (cases pvs; cases szs) auto
    have i: "\<not> length sw \<le> i"
      and n: "\<And>sw1. length sw1 = length sw \<Longrightarrow>
                Suc i + min (length cs) (min (length pvs') (length szs')) \<le> length sw1"
      using Cons.prems unfolding l by simp_all
    let ?newV = "minV_ra e + Vrange_ra e * (1 + sin (pv + dV_ra e * real (nsteps_ra e) * sz)) / 2"
    have "\<exists>sw1 g1 c'. length sw1 = length sw \<and>
            ra_loop e i (c # cs) pvs szs sw g =
              (case ra_loop e (Suc i) cs pvs' szs' sw1 g1 of
                 Inl er \<Rightarrow> Inl er
               | Inr (cs', sw', g2) \<Rightarrow> Inr (c' # cs', sw', g2))"
    proof (cases "?newV > V c \<and> sw ! i = False")
      case True
      have "length (sw[i := True]) = length sw \<and>
            ra_loop e i (c # cs) pvs szs sw g =
              (case ra_loop e (Suc i) cs pvs' szs' (sw[i := True]) (\<lambda>n. g (Suc n)) of
                 Inl er \<Rightarrow> Inl er
               | Inr (cs', sw', g2) \<Rightarrow> Inr (c\<lparr>H := g 0, V := ?newV\<rparr> # cs', sw', g2))"
        using True i unfolding l by (simp add: Let_def random_def)
      then show ?thesis by blast
    next
      case nf: False
      show ?thesis
      proof (cases "?newV < V c \<and> sw ! i = True")
        case True
        have "length (sw[i := False]) = length sw \<and>
            ra_loop e i (c # cs) pvs szs sw g =
              (case ra_loop e (Suc i) cs pvs' szs' (sw[i := False]) g of
                 Inl er \<Rightarrow> Inl er
               | Inr (cs', sw', g2) \<Rightarrow> Inr (c\<lparr>V := ?newV\<rparr> # cs', sw', g2))"
          using True nf i unfolding l by (auto simp: Let_def)
        then show ?thesis by blast
      next
        case False
        have "length sw = length sw \<and>
            ra_loop e i (c # cs) pvs szs sw g =
              (case ra_loop e (Suc i) cs pvs' szs' sw g of
                 Inl er \<Rightarrow> Inl er
               | Inr (cs', sw', g2) \<Rightarrow> Inr (c\<lparr>V := ?newV\<rparr> # cs', sw', g2))"
          using False nf i unfolding l by (auto simp: Let_def)
        then show ?thesis by blast
      qed
    qed
    then obtain sw1 g1 c' where l1: "length sw1 = length sw"
      and eq: "ra_loop e i (c # cs) pvs szs sw g =
              (case ra_loop e (Suc i) cs pvs' szs' sw1 g1 of
                 Inl er \<Rightarrow> Inl er
               | Inr (cs', sw', g2) \<Rightarrow> Inr (c' # cs', sw', g2))"
      by blast
    from Cons.IH [OF n [OF l1], of g1]
    obtain cs1 sw' g' where r: "ra_loop e (Suc i) cs pvs' szs' sw1 g1 = Inr (cs1, sw', g')"
      and k: "length cs1 = length cs" "length sw' = length sw1"
      and u: "\<forall>j<length cs. min (length pvs') (length szs') \<le> j \<longrightarrow> cs1 ! j = cs ! j"
      by blast
    have "\<forall>j<length (c # cs). min (length pvs) (length szs) \<le> j \<longrightarrow> (c' # cs1) ! j = (c # cs) ! j"
    proof (intro allI impI)
      fix j assume j: "j < length (c # cs)" "min (length pvs) (length szs) \<le> j"
      then obtain m where m: "j = Suc m" unfolding l by (cases j) auto
      with j u show "(c' # cs1) ! j = (c # cs) ! j" unfolding l by simp
    qed
    with eq r k l1 show ?thesis by simp
  qed
qed

lemma ChristmasRA_step_later_ok:
  assumes "nsteps_ra e \<noteq> 0"
    and "min (length (Vinit_ra e)) (length (stepsize e)) \<le> length (switched_ra e)"
  shows "\<exists>e' cs' g'. ChristmasRA_step e cs g = Inr (e', cs', g') \<and> length cs' = length cs \<and>
           (\<forall>j<length cs. min (length (Vinit_ra e)) (length (stepsize e)) \<le> j \<longrightarrow> cs' ! j = cs ! j)"
proof -
  let ?e2 = "e\<lparr>nsteps_ra := nsteps_ra e + 1\<rparr>"
  have "0 + min (length cs) (min (length (Vinit_ra ?e2)) (length (stepsize ?e2)))
          \<le> length (switched_ra ?e2)"
    using assms(2) by simp
  from ra_loop_ok [OF this, of ?e2 g]
  obtain cs' sw' g' where "ra_loop ?e2 0 cs (Vinit_ra ?e2) (stepsize ?e2) (switched_ra ?e2) g
      = Inr (cs', sw', g')" "length cs' = length cs"
    "\<forall>j<length cs. min (length (Vinit_ra ?e2)) (length (stepsize ?e2)) \<le> j \<longrightarrow> cs' ! j = cs ! j"
    by blast
  then show ?thesis using assms(1) by (simp add: ChristmasRA_step_def Let_def)
qed

text \<open>C7, at an input where the claim as stated fails: an HSVCycleEffect that recorded the
  phases of two colours accepts a step on one colour and updates it.\<close>

theorem HSVCycleEffect_shorter_sequence_accepted:
  "HSVCycle_step (HSVCycleEffect_init (5 / 100) 0 0 (1 / 255) 1 (1 / 255) 1)
       [\<lparr>H = 6 / 10, S = 1, V = 1\<rparr>, \<lparr>H = 8 / 10, S = 1, V = 1\<rparr>]
     = Inr (\<lparr>dH = 5 / 100, dS = 0, dV = 0, nsteps = 1,
             minS = 1 / 255, maxS = 1, Srange = 1 - 1 / 255,
             minV = 1 / 255, maxV = 1, Vrange = 1 - 1 / 255,
             Sinit = [arcsin 1, arcsin 1], Vinit = [arcsin 1, arcsin 1]\<rparr>,
            [\<lparr>H = 13 / 20, S = 1, V = 1\<rparr>, \<lparr>H = 17 / 20, S = 1, V = 1\<rparr>])
   \<and> HSVCycle_step
        \<lparr>dH = 5 / 100, dS = 0, dV = 0, nsteps = 1,
         minS = 1 / 255, maxS = 1, Srange = 1 - 1 / 255,
         minV = 1 / 255, maxV = 1, Vrange = 1 - 1 / 255,
         Sinit = [arcsin 1, arcsin 1], Vinit = [arcsin 1, arcsin 1]\<rparr>
        [\<lparr>H = 13 / 20, S = 1, V = 1\<rparr>]
     = Inr (\<lparr>dH = 5 / 100, dS = 0, dV = 0, nsteps = 2,
             minS = 1 / 255, maxS = 1, Srange = 1 - 1 / 255,
             minV = 1 / 255, maxV = 1, Vrange = 1 - 1 / 255,
             Sinit = [arcsin 1, arcsin 1], Vinit = [arcsin 1, arcsin 1]\<rparr>,
            [\<lparr>H = 7 / 10, S = 1, V = 1\<rparr>])"
  by (simp add: HSVCycle_step_def HSVCycleEffect_init_def asin_def float_mod_nonneg fmod_def
      Let_def)

text \<open>C7 (amended): no stateful effect checks the length of the colour sequence against
  its per-device state, and there is no ConfigurationError. After its first step,
  HSVCycleEffect.step returns on a sequence of any length: it updates the colours up to
  the shorter of its phase lists and leaves the colours beyond unchanged.
  ChristmasEffect.step with a non-empty palette returns on a sequence that is not longer
  than its list of palette indices; on a longer one, an iteration in which the latch fires
  raises IndexError. After its first step, ChristmasEffectRA.step returns on a sequence
  of any length (its list of flags being as long as its phases and step sizes, as the
  first step makes them) and leaves the colours beyond its lists unchanged.
  ChristmasEffectR keeps no per-device list and its step returns on every non-empty
  sequence, with as many colours as it was given.\<close>

theorem step_length_mismatch:
  "(nsteps e \<noteq> 0 \<longrightarrow>
      (\<exists>e' cs'. HSVCycle_step e cs = Inr (e', cs') \<and> length cs' = length cs \<and>
         (\<forall>i<length cs. min (length (Sinit e)) (length (Vinit e)) \<le> i \<longrightarrow> cs' ! i = cs ! i) \<and>
         (\<forall>i<length cs. i < min (length (Sinit e)) (length (Vinit e)) \<longrightarrow>
            H (cs' ! i) = float_mod (H (cs ! i) + dH e) 1))) \<and>
   (nsteps_c x \<noteq> 0 \<and> hues x \<noteq> [] \<and> length cs \<le> length (current x) \<longrightarrow>
      (\<exists>x' cs'. Christmas_step x cs = Inr (x', cs') \<and> length cs' = length cs)) \<and>
   (hues x \<noteq> [] \<and> length (current x) < length cs \<and> latch_fires x cs i pv \<longrightarrow>
      christmas_body i pv (x, cs) = Inl IndexError) \<and>
   (nsteps_ra a \<noteq> 0 \<and>
    min (length (Vinit_ra a)) (length (stepsize a)) \<le> length (switched_ra a) \<longrightarrow>
      (\<exists>a' cs' g'. ChristmasRA_step a cs g = Inr (a', cs', g') \<and> length cs' = length cs \<and>
         (\<forall>j<length cs. min (length (Vinit_ra a)) (length (stepsize a)) \<le> j \<longrightarrow>
            cs' ! j = cs ! j))) \<and>
   (cs \<noteq> [] \<longrightarrow>
      (\<exists>r' cs' g'. ChristmasR_step r cs g = Inr (r', cs', g') \<and> length cs' = length cs))"
proof -
  have a: "nsteps e \<noteq> 0 \<longrightarrow>
      (\<exists>e' cs'. HSVCycle_step e cs = Inr (e', cs') \<and> length cs' = length cs \<and>
         (\<forall>i<length cs. min (length (Sinit e)) (length (Vinit e)) \<le> i \<longrightarrow> cs' ! i = cs ! i) \<and>
         (\<forall>i<length cs. i < min (length (Sinit e)) (length (Vinit e)) \<longrightarrow>
            H (cs' ! i) = float_mod (H (cs ! i) + dH e) 1))"
    by (simp add: HSVCycle_step_def Let_def length_cycle_loop cycle_loop_beyond cycle_loop_within)
  have b: "nsteps_c x \<noteq> 0 \<and> hues x \<noteq> [] \<and> length cs \<le> length (current x) \<longrightarrow>
      (\<exists>x' cs'. Christmas_step x cs = Inr (x', cs') \<and> length cs' = length cs)"
    using Christmas_step_later_ok [of x cs] by blast
  have c: "hues x \<noteq> [] \<and> length (current x) < length cs \<and> latch_fires x cs i pv \<longrightarrow>
      christmas_body i pv (x, cs) = Inl IndexError"
  proof (intro impI, elim conjE)
    assume h: "hues x \<noteq> []" "length (current x) < length cs" "latch_fires x cs i pv"
    have "resolve_hues (hues x) (map (\<lambda>j. j + 1) (current x)) 0 cs = Inl IndexError"
      using h(1,2) by (intro resolve_hues_IndexError) simp_all
    then show "christmas_body i pv (x, cs) = Inl IndexError"
      using h(3) by (simp add: christmas_body_def Let_def)
  qed
  have d: "nsteps_ra a \<noteq> 0 \<and>
    min (length (Vinit_ra a)) (length (stepsize a)) \<le> length (switched_ra a) \<longrightarrow>
      (\<exists>a' cs' g'. ChristmasRA_step a cs g = Inr (a', cs', g') \<and> length cs' = length cs \<and>
         (\<forall>j<length cs. min (length (Vinit_ra a)) (length (stepsize a)) \<le> j \<longrightarrow>
            cs' ! j = cs ! j))"
    using ChristmasRA_step_later_ok [of a cs g] by blast
  have f: "cs \<noteq> [] \<longrightarrow>
      (\<exists>r' cs' g'. ChristmasR_step r cs g = Inr (r', cs', g') \<and> length cs' = length cs)"
    using ChristmasR_step_ok [of cs r g] by blast
  from a b c d f show ?thesis by (intro conjI)
qed

theorem step_length_mismatch_witness:
  "(\<exists>e' cs'.
      HSVCycle_step
        \<lparr>dH = 5 / 100, dS = 0, dV = 0, nsteps = 1,
         minS = 1 / 255, maxS = 1, Srange = 1 - 1 / 255,
         minV = 1 / 255, maxV = 1, Vrange = 1 - 1 / 255,
         Sinit = [arcsin 1, arcsin 1], Vinit = [arcsin 1, arcsin 1]\<rparr>
        [\<lparr>H = 13 / 20, S = 1, V = 1\<rparr>, \<lparr>H = 17 / 20, S = 1, V = 1\<rparr>,
         \<lparr>H = 3 / 10, S = 1 / 2, V = 1 / 2\<rparr>] = Inr (e', cs') \<and>
      length cs' = 3 \<and> cs' ! 2 = \<lparr>H = 3 / 10, S = 1 / 2, V = 1 / 2\<rparr> \<and>
      H (cs' ! 0) = float_mod (13 / 20 + 5 / 100) 1) \<and>
   (\<exists>x' cs'.
      Christmas_step
        \<lparr>dV_c = 1 / 10, minV_c = 1 / 255, maxV_c = 7 / 10, Vrange_c = 7 / 10 - 1 / 255,
         hues = [0, 1 / 2], nsteps_c = 1, switched_c = False, current = [0, 1],
         Vinit_c = [0, 0], steps = None\<rparr>
        [\<lparr>H = 0, S = 1, V = 0\<rparr>] = Inr (x', cs') \<and> length cs' = 1) \<and>
   christmas_body 0 0
     (\<lparr>dV_c = 0, minV_c = 1 / 255, maxV_c = 7 / 10, Vrange_c = 7 / 10 - 1 / 255,
       hues = [0, 1 / 2], nsteps_c = 1, switched_c = False, current = [0],
       Vinit_c = [0], steps = None\<rparr>,
      [\<lparr>H = 0, S = 1, V = 0\<rparr>, \<lparr>H = 1 / 2, S = 1, V = 0\<rparr>]) = Inl IndexError \<and>
   (\<exists>a' cs' g'.
      ChristmasRA_step
        \<lparr>dV_ra = 1 / 10, minV_ra = 1 / 255, maxV_ra = 7 / 10, Vrange_ra = 7 / 10 - 1 / 255,
         nsteps_ra = 1, switched_ra = [False], stepamp = 3 / 10, Vinit_ra = [1 / 2],
         stepsize = [1]\<rparr>
        [\<lparr>H = 0, S = 1, V = 0\<rparr>, \<lparr>H = 1 / 2, S = 1, V = 1 / 4\<rparr>] (\<lambda>n. 1 / 2)
        = Inr (a', cs', g') \<and>
      length cs' = 2 \<and> cs' ! 1 = \<lparr>H = 1 / 2, S = 1, V = 1 / 4\<rparr>) \<and>
   (\<exists>r' cs' g'.
      ChristmasR_step (ChristmasEffectR_init (1 / 10) (1 / 255) (7 / 10))
        [\<lparr>H = 0, S = 1, V = 0\<rparr>] (\<lambda>n. 1 / 2) = Inr (r', cs', g') \<and> length cs' = 1)"
proof -
  let ?e = "\<lparr>dH = 5 / 100, dS = 0, dV = 0, nsteps = 1,
         minS = 1 / 255, maxS = 1, Srange = 1 - 1 / 255,
         minV = 1 / 255, maxV = 1, Vrange = 1 - 1 / 255,
         Sinit = [arcsin 1, arcsin 1], Vinit = [arcsin 1, arcsin 1]\<rparr>"
  let ?cs = "[\<lparr>H = 13 / 20, S = 1, V = 1\<rparr>, \<lparr>H = 17 / 20, S = 1, V = 1\<rparr>,
         \<lparr>H = 3 / 10, S = 1 / 2, V = 1 / 2\<rparr>]"
  let ?x = "\<lparr>dV_c = 1 / 10, minV_c = 1 / 255, maxV_c = 7 / 10, Vrange_c = 7 / 10 - 1 / 255,
         hues = [0, 1 / 2], nsteps_c = 1, switched_c = False, current = [0, 1],
         Vinit_c = [0, 0], steps = None\<rparr>"
  let ?y = "\<lparr>dV_c = 0, minV_c = 1 / 255, maxV_c = 7 / 10, Vrange_c = 7 / 10 - 1 / 255,
       hues = [0, 1 / 2], nsteps_c = 1, switched_c = False, current = [0],
       Vinit_c = [0], steps = None\<rparr>"
  let ?ys = "[\<lparr>H = 0, S = 1, V = 0\<rparr>, \<lparr>H = 1 / 2, S = 1, V = 0\<rparr>]"
  have "nsteps ?e \<noteq> 0" by simp
  with step_length_mismatch [of ?e ?cs]
  obtain e' cs' where s: "HSVCycle_step ?e ?cs = Inr (e', cs')" "length cs' = length ?cs"
    and u: "\<forall>i<length ?cs. min (length (Sinit ?e)) (length (Vinit ?e)) \<le> i \<longrightarrow> cs' ! i = ?cs ! i"
    and w: "\<forall>i<length ?cs. i < min (length (Sinit ?e)) (length (Vinit ?e)) \<longrightarrow>
            H (cs' ! i) = float_mod (H (?cs ! i) + dH ?e) 1"
    by blast
  from u have "cs' ! 2 = ?cs ! 2" by simp
  moreover from w have "H (cs' ! 0) = float_mod (H (?cs ! 0) + dH ?e) 1" by simp
  ultimately have p1: "\<exists>e' cs'. HSVCycle_step ?e ?cs = Inr (e', cs') \<and>
      length cs' = 3 \<and> cs' ! 2 = \<lparr>H = 3 / 10, S = 1 / 2, V = 1 / 2\<rparr> \<and>
      H (cs' ! 0) = float_mod (13 / 20 + 5 / 100) 1"
    using s by simp
  have "nsteps_c ?x \<noteq> 0 \<and> hues ?x \<noteq> [] \<and> length [\<lparr>H = 0, S = 1, V = 0\<rparr>] \<le> length (current ?x)"
    by simp
  with step_length_mismatch [of _ "[\<lparr>H = 0, S = 1, V = 0\<rparr>]" ?x]
  have p2: "\<exists>x' cs'. Christmas_step ?x [\<lparr>H = 0, S = 1, V = 0\<rparr>] = Inr (x', cs') \<and> length cs' = 1"
    by simp
  have "hues ?y \<noteq> [] \<and> length (current ?y) < length ?ys \<and> latch_fires ?y ?ys 0 0"
    by (simp add: latch_fires_def newV_c_def)
  with step_length_mismatch [of _ ?ys ?y 0 0]
  have p3: "christmas_body 0 0 (?y, ?ys) = Inl IndexError" by blast
  let ?a = "\<lparr>dV_ra = 1 / 10, minV_ra = 1 / 255, maxV_ra = 7 / 10, Vrange_ra = 7 / 10 - 1 / 255,
         nsteps_ra = 1, switched_ra = [False], stepamp = 3 / 10, Vinit_ra = [1 / 2],
         stepsize = [1]\<rparr>"
  let ?as = "[\<lparr>H = 0, S = 1, V = 0\<rparr>, \<lparr>H = 1 / 2, S = 1, V = 1 / 4\<rparr>]"
  have "nsteps_ra ?a \<noteq> 0 \<and>
        min (length (Vinit_ra ?a)) (length (stepsize ?a)) \<le> length (switched_ra ?a)"
    by simp
  with step_length_mismatch [of _ ?as _ _ _ ?a "\<lambda>n. 1 / 2"]
  obtain a' as' g' where t: "ChristmasRA_step ?a ?as (\<lambda>n. 1 / 2) = Inr (a', as', g')"
      "length as' = length ?as"
    and v: "\<forall>j<length ?as. min (length (Vinit_ra ?a)) (length (stepsize ?a)) \<le> j \<longrightarrow>
              as' ! j = ?as ! j"
    by blast
  from v have "as' ! 1 = ?as ! 1" by simp
  with t have p4: "\<exists>a' cs' g'. ChristmasRA_step ?a ?as (\<lambda>n. 1 / 2) = Inr (a', cs', g') \<and>
      length cs' = 2 \<and> cs' ! 1 = \<lparr>H = 1 / 2, S = 1, V = 1 / 4\<rparr>"
    by simp
  have "[\<lparr>H = 0, S = 1, V = 0\<rparr>] \<noteq> []" by simp
  with step_length_mismatch [of _ "[\<lparr>H = 0, S = 1, V = 0\<rparr>]" _ _ _ _ "\<lambda>n. 1 / 2"
      "ChristmasEffectR_init (1 / 10) (1 / 255) (7 / 10)"]
  have p5: "\<exists>r' cs' g'. ChristmasR_step (ChristmasEffectR_init (1 / 10) (1 / 255) (7 / 10))
        [\<lparr>H = 0, S = 1, V = 0\<rparr>] (\<lambda>n. 1 / 2) = Inr (r', cs', g') \<and> length cs' = 1"
    by simp
  from p1 p2 p3 p4 p5 show ?thesis by (intro conjI)
qed

section \<open>The hue invariant\<close>

text \<open>C8, at a well-formed input: an HSVCycleEffect with the hue drift \<open>dH = - 2^-60\<close> (a
  float) steps the colour \<open>(0, 1, 1)\<close>, whose hue lies in \<open>[0, 1)\<close>. The sum
  \<open>0 + dH\<close> is a tiny negative number, Python's \<^verbatim>\<open>%\<close> adds 1 to the C remainder and
  the float addition rounds \<open>1 - 2^-60\<close> to \<open>1.0\<close>: after the step the hue is 1, outside
  \<open>[0, 1)\<close>, and converting that colour raises, since no sector branch takes
  \<open>Hprime = 6\<close>.\<close>

theorem HSVCycleEffect_hue_reaches_one:
  "HSVCycle_step (HSVCycleEffect_init (- (1 / 2 ^ 60)) 0 0 (1 / 255) 1 (1 / 255) 1)
       [\<lparr>H = 0, S = 1, V = 1\<rparr>]
     = Inr (\<lparr>dH = - (1 / 2 ^ 60), dS = 0, dV = 0, nsteps = 1,
             minS = 1 / 255, maxS = 1, Srange = 1 - 1 / 255,
             minV = 1 / 255, maxV = 1, Vrange = 1 - 1 / 255,
             Sinit = [arcsin 1], Vinit = [arcsin 1]\<rparr>,
            [\<lparr>H = 1, S = 1, V = 1\<rparr>])
   \<and> getRGBAColour \<lparr>H = 1, S = 1, V = 1\<rparr> = Inl UnboundLocalError"
proof -
  have "float_mod (- (1 / 1152921504606846976)) 1 = 1"
    using float_mod_tiny_negative by simp
  then show ?thesis
    by (simp add: HSVCycle_step_def HSVCycleEffect_init_def asin_def Let_def getRGBAColour_def)
qed

end
